theory Spec2Isabelle
  imports Main "HOL-Library.Char_ord" "HOL-Library.List_Lexorder"
begin

text \<open>
  A model of the spreadsheet extractor: the live-application extractor
  \<^verbatim>\<open>ExcelFormulaExtractor\<close> (extractor.py), the file-parsing extractor
  \<^verbatim>\<open>OpenpyxlExcelExtractor\<close> (openpyxl_extractor.py) and the CSV exporter of the
  converter. Each definition follows one method of the source and keeps its name; the
  suffix \<open>_xl\<close> marks a definition that follows the live-application extractor's method
  of that name.
  What the spreadsheet libraries return is an input of the model; an exception is a value
  (\<open>None\<close>, or \<open>Inl\<close> with the exception's message).
\<close>

section \<open>Column letters\<close>

text \<open>
  \<^verbatim>\<open>ExcelFormulaExtractor._column_to_letter\<close> (extractor.py): the loop
  \<^verbatim>\<open>while column_number > 0: column_number, remainder = divmod(column_number - 1, 26);
  result = chr(65 + remainder) + result\<close>, started with the empty string. Python's
  integers are unbounded, so the column number is an \<open>int\<close>; \<open>divmod\<close> with a positive
  divisor is floor division, which is \<open>div\<close>/\<open>mod\<close> on \<open>int\<close>.
\<close>

function column_to_letter_loop :: "int \<Rightarrow> string \<Rightarrow> string" where
  "column_to_letter_loop column_number result =
     (if column_number > 0
      then column_to_letter_loop ((column_number - 1) div 26)
             (char_of (65 + (column_number - 1) mod 26) # result)
      else result)"
  by pat_completeness auto
termination
  by (relation "measure (\<lambda>(n, r). nat n)") auto

definition column_to_letter :: "int \<Rightarrow> string" where
  "column_to_letter column_number = column_to_letter_loop column_number []"

text \<open>
  Modelled from the spec: the reference inverse \<open>letter_to_column\<close>, which the
  specification names and the repository does not contain. It reads a letter string as a
  bijective base-26 numeral with the digits \<open>A = 1, \<dots>, Z = 26\<close>, most significant
  letter first.
\<close>

definition letter_value :: "char \<Rightarrow> int" where
  "letter_value c = of_char c - 64"

definition letter_to_column :: "string \<Rightarrow> int" where
  "letter_to_column s = foldl (\<lambda>acc c. acc * 26 + letter_value c) 0 s"

definition is_upper_letter :: "char \<Rightarrow> bool" where
  "is_upper_letter c \<longleftrightarrow> (65::nat) \<le> of_char c \<and> of_char c \<le> (90::nat)"

section \<open>Python strings\<close>

text \<open>
  A Python \<^verbatim>\<open>str\<close> is modelled as a \<open>string\<close>, one \<open>char\<close> per code point, so the
  model covers the strings whose code points are below 256. The string methods the
  extractors call are written out here with Python's meaning on those code points.
\<close>

definition is_digit :: "char \<Rightarrow> bool" where
  \<comment> \<open>the regular expression class \<^verbatim>\<open>\d\<close>: below 256 the decimal digits are 0 to 9\<close>
  "is_digit c \<longleftrightarrow> (48::nat) \<le> of_char c \<and> of_char c \<le> (57::nat)"

definition is_space :: "char \<Rightarrow> bool" where
  \<comment> \<open>the characters \<^verbatim>\<open>str.strip()\<close> removes: tab to carriage return, the
      separators 28 to 31, the space, NEL (133) and the no-break space (160)\<close>
  "is_space c \<longleftrightarrow>
     ((9::nat) \<le> of_char c \<and> of_char c \<le> (13::nat))
     \<or> ((28::nat) \<le> of_char c \<and> of_char c \<le> (32::nat))
     \<or> of_char c = (133::nat) \<or> of_char c = (160::nat)"

definition strip :: "string \<Rightarrow> string" where
  \<comment> \<open>\<^verbatim>\<open>s.strip()\<close>\<close>
  "strip s = rev (dropWhile is_space (rev (dropWhile is_space s)))"

definition strip_char :: "char \<Rightarrow> string \<Rightarrow> string" where
  \<comment> \<open>\<^verbatim>\<open>s.strip(c)\<close> for a one-character argument\<close>
  "strip_char c s = rev (dropWhile (\<lambda>x. x = c) (rev (dropWhile (\<lambda>x. x = c) s)))"

definition startswith :: "string \<Rightarrow> char \<Rightarrow> bool" where
  "startswith s c \<longleftrightarrow> (case s of [] \<Rightarrow> False | x # _ \<Rightarrow> x = c)"

definition endswith :: "string \<Rightarrow> char \<Rightarrow> bool" where
  "endswith s c \<longleftrightarrow> (case rev s of [] \<Rightarrow> False | x # _ \<Rightarrow> x = c)"

definition has :: "char \<Rightarrow> string \<Rightarrow> bool" where
  \<comment> \<open>\<^verbatim>\<open>c in s\<close> for a one-character \<^verbatim>\<open>c\<close>\<close>
  "has c s \<longleftrightarrow> c \<in> set s"

fun split_on :: "char \<Rightarrow> string \<Rightarrow> string list" where
  \<comment> \<open>\<^verbatim>\<open>s.split(c)\<close>: the pieces between the occurrences of \<^verbatim>\<open>c\<close>, empty pieces kept\<close>
  "split_on c [] = [ [] ]"
| "split_on c (x # xs) =
     (if x = c then [] # split_on c xs
      else (case split_on c xs of [] \<Rightarrow> [ [x] ] | h # t \<Rightarrow> (x # h) # t))"

definition split_once :: "char \<Rightarrow> string \<Rightarrow> string \<times> string" where
  \<comment> \<open>\<^verbatim>\<open>a, b = s.split(c, 1)\<close>, used only where \<^verbatim>\<open>c in s\<close>: the text before the first
      \<^verbatim>\<open>c\<close> and the text after it\<close>
  "split_once c s = (takeWhile (\<lambda>x. x \<noteq> c) s, drop 1 (dropWhile (\<lambda>x. x \<noteq> c) s))"

definition remove_spaces :: "string \<Rightarrow> string" where
  \<comment> \<open>\<^verbatim>\<open>s.replace(" ", "")\<close>\<close>
  "remove_spaces s = filter (\<lambda>x. x \<noteq> CHR '' '') s"

definition lower_char :: "char \<Rightarrow> char" where
  \<comment> \<open>\<^verbatim>\<open>str.lower\<close> on one code point below 256: A to Z, and the accented capitals
      192 to 222 except the multiplication sign 215, move up by 32\<close>
  "lower_char c =
     (let n = (of_char c :: nat)
      in if (65 \<le> n \<and> n \<le> 90) \<or> (192 \<le> n \<and> n \<le> 222 \<and> n \<noteq> 215)
         then char_of (n + 32) else c)"

definition lower :: "string \<Rightarrow> string" where
  "lower s = map lower_char s"

definition upper_char :: "char \<Rightarrow> string" where
  \<comment> \<open>\<^verbatim>\<open>str.upper\<close> on one code point below 256: a to z, and the accented small letters
      224 to 254 except the division sign 247, move down by 32; the sharp s (223) becomes
      the two letters SS. The micro sign (181) and y with diaeresis (255) have capitals
      above 255; they are kept as they are, which changes nothing for a scanner that only
      tests for A to Z and 0 to 9.\<close>
  "upper_char c =
     (let n = (of_char c :: nat)
      in if (97 \<le> n \<and> n \<le> 122) \<or> (224 \<le> n \<and> n \<le> 254 \<and> n \<noteq> 247)
         then [char_of (n - 32)]
         else if n = 223 then ''SS'' else [c])"

definition upper :: "string \<Rightarrow> string" where
  "upper s = concat (map upper_char s)"

section \<open>Formula dependencies\<close>

text \<open>
  \<^verbatim>\<open>_parse_formula_dependencies\<close> is the same in both extractors:
  \<^verbatim>\<open>matches = re.findall(r'[A-Z]+\d+', formula.upper()); return sorted(list(set(matches)))\<close>.

  \<open>match_here\<close> is the regular expression tried at the start of a string. The greedy
  \<^verbatim>\<open>[A-Z]+\<close> takes the whole run of capitals; \<^verbatim>\<open>\d+\<close> then needs a digit. Giving
  back capitals cannot help, since the next character would be a capital and not a digit,
  so the attempt succeeds exactly when a non-empty run of capitals is followed by a
  non-empty run of digits, and it consumes both runs whole. \<open>findall\<close> is the scan of
  \<^verbatim>\<open>re.findall\<close>: a match is reported and the scan goes on behind it, otherwise the scan
  moves one character on.
\<close>

definition match_here :: "string \<Rightarrow> (string \<times> string) option" where
  "match_here s =
     (let letters = takeWhile is_upper_letter s;
          r = dropWhile is_upper_letter s;
          digits = takeWhile is_digit r
      in if letters \<noteq> [] \<and> digits \<noteq> []
         then Some (letters @ digits, dropWhile is_digit r) else None)"

function findall :: "string \<Rightarrow> string list" where
  "findall s =
     (case match_here s of
        Some (tok, rest) \<Rightarrow> tok # findall rest
      | None \<Rightarrow> (case s of [] \<Rightarrow> [] | c # t \<Rightarrow> findall t))"
  by pat_completeness auto
termination
proof (relation "measure length")
  fix s :: string and x tok rest
  assume "match_here s = Some x" and "(tok, rest) = x"
  then have l: "takeWhile is_upper_letter s \<noteq> []"
    and r: "rest = dropWhile is_digit (dropWhile is_upper_letter s)"
    by (auto simp: match_here_def Let_def split: if_splits)
  from l have "length (dropWhile is_upper_letter s) < length s"
    by (cases s) (auto simp: le_imp_less_Suc length_dropWhile_le split: if_splits)
  moreover have "length rest \<le> length (dropWhile is_upper_letter s)"
    unfolding r by (rule length_dropWhile_le)
  ultimately show "(rest, s) \<in> measure length" by simp
qed auto

definition parse_formula_dependencies :: "string \<Rightarrow> string list" where
  \<comment> \<open>\<^verbatim>\<open>sorted\<close> on strings is the lexicographic order of the code points, the order of
      \<open>string\<close> here; \<^verbatim>\<open>list(set(\<dots>))\<close> removes the duplicates\<close>
  "parse_formula_dependencies formula = sort (remdups (findall (upper formula)))"

text \<open>
  The specification's reading of the scan, for comparison with \<open>findall\<close>: a cell token
  is a non-empty run of capitals followed by a non-empty run of digits, and it occurs
  maximally in a text when it is neither preceded by a capital nor followed by a digit.
\<close>

definition cell_token :: "string \<Rightarrow> bool" where
  "cell_token tok \<longleftrightarrow>
     (\<exists>ls ds. tok = ls @ ds \<and> ls \<noteq> [] \<and> ds \<noteq> []
              \<and> list_all is_upper_letter ls \<and> list_all is_digit ds)"

definition maximal_token_of :: "string \<Rightarrow> string \<Rightarrow> bool" where
  "maximal_token_of s tok \<longleftrightarrow>
     cell_token tok
     \<and> (\<exists>pre post. s = pre @ tok @ post
           \<and> (pre = [] \<or> \<not> is_upper_letter (last pre))
           \<and> (post = [] \<or> \<not> is_digit (hd post)))"

section \<open>Cell values and the normalised validation source\<close>

text \<open>
  The Python values the extractors handle: \<^verbatim>\<open>None\<close>, booleans, numbers, strings, lists,
  and dictionaries with string keys (association lists, in the order of the dictionary).
  Nothing in the modelled code computes with a number, so a number is represented by an
  integer.
\<close>

datatype pyval =
    PNone
  | PBool bool
  | PNum int
  | PStr string
  | PList "pyval list"
  | PDict "(string \<times> pyval) list"

fun is_scalar :: "pyval \<Rightarrow> bool" where
  \<comment> \<open>a value that is not a list (\<^verbatim>\<open>not isinstance(v, list)\<close>)\<close>
  "is_scalar (PList _) = False"
| "is_scalar _ = True"

definition dict_get :: "(string \<times> pyval) list \<Rightarrow> string \<Rightarrow> pyval" where
  \<comment> \<open>\<^verbatim>\<open>d.get(key)\<close>: \<^verbatim>\<open>None\<close> for a missing key\<close>
  "dict_get d k = (case map_of d k of None \<Rightarrow> PNone | Some v \<Rightarrow> v)"

fun truthy :: "pyval \<Rightarrow> bool" where
  \<comment> \<open>the truth value Python gives a value in a condition\<close>
  "truthy PNone = False"
| "truthy (PBool b) = b"
| "truthy (PNum n) = (n \<noteq> 0)"
| "truthy (PStr s) = (s \<noteq> [])"
| "truthy (PList xs) = (xs \<noteq> [])"
| "truthy (PDict d) = (d \<noteq> [])"

text \<open>
  Both resolvers start in the same way (\<^verbatim>\<open>_resolve_validation_list_items\<close>):
  \<^verbatim>\<open>f = str(formula1).strip()\<close>, a leading \<^verbatim>\<open>=\<close> is cut off, and then a pair of
  wrapping double quotes is cut off when the text has at least two characters.
\<close>

definition normalize_source :: "string \<Rightarrow> string" where
  "normalize_source formula1 =
     (let f = strip formula1;
          f = (if startswith f CHR ''='' then tl f else f);
          f = (if startswith f CHR 0x22 \<and> endswith f CHR 0x22 \<and> length f \<ge> 2
               then butlast (tl f) else f)
      in f)"

definition is_literal_list :: "string \<Rightarrow> bool" where
  \<comment> \<open>\<^verbatim>\<open>"," in f and "!" not in f and ":" not in f and "[" not in f\<close>\<close>
  "is_literal_list f \<longleftrightarrow>
     has CHR '','' f \<and> \<not> has CHR ''!'' f \<and> \<not> has CHR '':'' f \<and> \<not> has CHR ''['' f"

definition literal_items :: "string \<Rightarrow> pyval list" where
  \<comment> \<open>\<^verbatim>\<open>[item.strip() for item in f.split(",")]\<close>\<close>
  "literal_items f = map (\<lambda>item. PStr (strip item)) (split_on CHR '','' f)"

definition table_name_of :: "string \<Rightarrow> string" where
  \<comment> \<open>\<^verbatim>\<open>ref.split("[", 1)[0]\<close>\<close>
  "table_name_of ref = fst (split_once CHR ''['' ref)"

definition col_name_of :: "string \<Rightarrow> string" where
  \<comment> \<open>\<^verbatim>\<open>ref.split("[", 1)[1].split("]", 1)[0]\<close>, used where \<^verbatim>\<open>"[" in ref\<close>\<close>
  "col_name_of ref = takeWhile (\<lambda>x. x \<noteq> CHR '']'') (snd (split_once CHR ''['' ref))"

section \<open>The file-parsing extractor: resolving validation lists\<close>

text \<open>
  \<^verbatim>\<open>OpenpyxlExcelExtractor\<close> (openpyxl_extractor.py) reads the workbook through the
  openpyxl library. What the resolver sees of it: each worksheet's title, cell values and
  tables (name and range string of each), the workbook's lookup of a sheet by title
  (\<^verbatim>\<open>wb[title]\<close>, which raises \<^verbatim>\<open>KeyError\<close> for an unknown title: \<open>None\<close> here), and
  the defined names with their destinations. The library's parser of range strings,
  \<^verbatim>\<open>CellRange(ref)\<close>, is a parameter \<open>cell_range\<close> of the model: it gives the bounds of
  the range, or \<open>None\<close> where the library raises.
\<close>

record bounds =
  min_row :: nat
  min_col :: nat
  max_row :: nat
  max_col :: nat

record worksheet =
  title :: string
  cell_value :: "nat \<Rightarrow> nat \<Rightarrow> pyval"
  tables :: "(string \<times> string) list"

record workbook =
  worksheets :: "worksheet list"
  sheet_by_title :: "string \<Rightarrow> worksheet option"
  defined_names :: "(string \<times> (string \<times> string) list) list"

definition iter_rows :: "worksheet \<Rightarrow> nat \<Rightarrow> nat \<Rightarrow> nat \<Rightarrow> nat \<Rightarrow> pyval list list" where
  \<comment> \<open>\<^verbatim>\<open>ws.iter_rows(min_row, max_row, min_col, max_col)\<close>, each cell replaced by its value:
      the rows from top to bottom, each from left to right\<close>
  "iter_rows ws r0 r1 c0 c1 =
     map (\<lambda>r. map (\<lambda>c. cell_value ws r c) [c0 ..< Suc c1]) [r0 ..< Suc r1]"

definition flatten_values :: "pyval \<Rightarrow> pyval list" where
  \<comment> \<open>\<^verbatim>\<open>_flatten_values\<close>: inside a nested list the \<^verbatim>\<open>None\<close>s are filtered out; an element
      that is not a list is appended as it is\<close>
  "flatten_values vals =
     (case vals of
        PNone \<Rightarrow> []
      | PList rs \<Rightarrow>
          concat (map (\<lambda>r. case r of PList vs \<Rightarrow> filter (\<lambda>v. v \<noteq> PNone) vs | _ \<Rightarrow> [r]) rs)
      | _ \<Rightarrow> [vals])"

definition values_from_range ::
  "(string \<Rightarrow> bounds option) \<Rightarrow> worksheet \<Rightarrow> string \<Rightarrow> pyval list option" where
  \<comment> \<open>\<^verbatim>\<open>_values_from_range\<close>: the values of the range's cells are collected row by row
      into one flat list, which is handed to \<^verbatim>\<open>_flatten_values\<close>; any exception gives
      \<^verbatim>\<open>None\<close>\<close>
  "values_from_range cell_range ws ref =
     (case cell_range ref of
        None \<Rightarrow> None
      | Some cr \<Rightarrow>
          Some (flatten_values
                  (PList (concat (iter_rows ws (min_row cr) (max_row cr) (min_col cr) (max_col cr))))))"

fun named_range_destinations ::
  "(string \<Rightarrow> bounds option) \<Rightarrow> workbook \<Rightarrow> (string \<times> string) list \<Rightarrow> pyval list option" where
  \<comment> \<open>the loop over \<^verbatim>\<open>dn.destinations\<close>; \<^verbatim>\<open>wb[title]\<close> raising ends the whole
      lookup with \<^verbatim>\<open>None\<close>\<close>
  "named_range_destinations cell_range wb [] = None"
| "named_range_destinations cell_range wb ((t, coord) # rest) =
     (case sheet_by_title wb t of
        None \<Rightarrow> None
      | Some ws \<Rightarrow>
          (case values_from_range cell_range ws coord of
             Some vals \<Rightarrow> Some vals
           | None \<Rightarrow> named_range_destinations cell_range wb rest))"

definition resolve_named_range ::
  "(string \<Rightarrow> bounds option) \<Rightarrow> workbook \<Rightarrow> string \<Rightarrow> pyval list option" where
  \<comment> \<open>\<^verbatim>\<open>_resolve_named_range\<close>: \<^verbatim>\<open>wb.defined_names.get(name)\<close> is a dictionary lookup
      with the name as the key\<close>
  "resolve_named_range cell_range wb name =
     (case map_of (defined_names wb) name of
        None \<Rightarrow> None
      | Some dests \<Rightarrow> named_range_destinations cell_range wb dests)"

definition table_column_on_sheet ::
  "(string \<Rightarrow> bounds option) \<Rightarrow> worksheet \<Rightarrow> string \<Rightarrow> string \<Rightarrow> pyval list option" where
  \<comment> \<open>the body of the loop of \<^verbatim>\<open>_resolve_table_column\<close> for one worksheet; \<open>None\<close>
      means that the loop goes on to the next worksheet. The data rows are read with
      \<^verbatim>\<open>[c.value for c in ws.iter_rows(..., values_only=True)]\<close>: with
      \<^verbatim>\<open>values_only=True\<close> the library yields tuples of values, so \<^verbatim>\<open>c.value\<close> raises
      \<^verbatim>\<open>AttributeError\<close> on the first data row, and the \<^verbatim>\<open>except\<close> of the loop goes on
      to the next worksheet. Only a table without data rows gets past that line, with the
      empty list.\<close>
  "table_column_on_sheet cell_range ws table_name col_name =
     (case map_of (tables ws) table_name of
        None \<Rightarrow> None
      | Some tbl_ref \<Rightarrow>
          (case cell_range tbl_ref of
             None \<Rightarrow> None
           | Some ref_range \<Rightarrow>
               (let headers = map (\<lambda>c. cell_value ws (min_row ref_range) c)
                                  [min_col ref_range ..< Suc (max_col ref_range)]
                in if PStr col_name \<in> set headers
                   then (let col_idx = length (takeWhile (\<lambda>h. h \<noteq> PStr col_name) headers)
                                         + min_col ref_range;
                             data_min_row = min_row ref_range + 1
                         in case iter_rows ws data_min_row (max_row ref_range) col_idx col_idx of
                              [] \<Rightarrow> Some []
                            | _ # _ \<Rightarrow> None)
                   else None)))"

fun table_column_sheets ::
  "(string \<Rightarrow> bounds option) \<Rightarrow> worksheet list \<Rightarrow> string \<Rightarrow> string \<Rightarrow> pyval list option" where
  "table_column_sheets cell_range [] table_name col_name = None"
| "table_column_sheets cell_range (ws # rest) table_name col_name =
     (case table_column_on_sheet cell_range ws table_name col_name of
        Some flat \<Rightarrow> Some flat
      | None \<Rightarrow> table_column_sheets cell_range rest table_name col_name)"

definition resolve_table_column ::
  "(string \<Rightarrow> bounds option) \<Rightarrow> workbook \<Rightarrow> string \<Rightarrow> pyval list option" where
  "resolve_table_column cell_range wb ref =
     (if \<not> has CHR ''['' ref \<or> \<not> has CHR '']'' ref then None
      else table_column_sheets cell_range (worksheets wb) (table_name_of ref) (col_name_of ref))"

definition after_table_column ::
  "(string \<Rightarrow> bounds option) \<Rightarrow> workbook \<Rightarrow> worksheet \<Rightarrow> string \<Rightarrow> pyval list option" where
  \<comment> \<open>what \<^verbatim>\<open>_resolve_validation_list_items\<close> does below the table block: the range
      block, entered when \<^verbatim>\<open>"!" in f or ":" in f\<close>, then the named range. An unknown
      sheet name raises \<^verbatim>\<open>KeyError\<close> into the \<^verbatim>\<open>except\<close> of the whole function.\<close>
  "after_table_column cell_range wb ws f =
     (if has CHR ''!'' f \<or> has CHR '':'' f
      then (if has CHR ''!'' f
            then (case sheet_by_title wb (strip_char CHR 0x27 (strip (fst (split_once CHR ''!'' f)))) of
                    None \<Rightarrow> None
                  | Some ws_target \<Rightarrow>
                      (case values_from_range cell_range ws_target (snd (split_once CHR ''!'' f)) of
                         Some vals \<Rightarrow> Some vals
                       | None \<Rightarrow> resolve_named_range cell_range wb f))
            else (case values_from_range cell_range ws f of
                    Some vals \<Rightarrow> Some vals
                  | None \<Rightarrow> resolve_named_range cell_range wb f))
      else resolve_named_range cell_range wb f)"

definition resolve_validation_list_items ::
  "(string \<Rightarrow> bounds option) \<Rightarrow> workbook \<Rightarrow> worksheet \<Rightarrow> string option \<Rightarrow> pyval list option" where
  \<comment> \<open>\<^verbatim>\<open>OpenpyxlExcelExtractor._resolve_validation_list_items(ws, formula1)\<close>, with
      \<^verbatim>\<open>ws.parent\<close> as \<open>wb\<close>\<close>
  "resolve_validation_list_items cell_range wb ws formula1 =
     (case formula1 of
        None \<Rightarrow> None
      | Some s \<Rightarrow>
          if s = [] then None
          else (let f = normalize_source s
                in if is_literal_list f then Some (literal_items f)
                   else (case (if has CHR ''['' f \<and> has CHR '']'' f
                               then resolve_table_column cell_range wb f else None) of
                           Some resolved \<Rightarrow> Some resolved
                         | None \<Rightarrow> after_table_column cell_range wb ws f)))"

section \<open>The live-application extractor: resolving validation lists\<close>

text \<open>
  \<^verbatim>\<open>ExcelFormulaExtractor\<close> (extractor.py) drives a running spreadsheet application
  through the xlwings library. What the resolver sees of it:
  \<^item> of a sheet: its name; \<^verbatim>\<open>sheet.range(addr).value\<close> (\<open>None\<close> where the call raises);
    its list objects, each with its name and, for a column name, what
    \<^verbatim>\<open>lo.ListColumns.Item(col_name)\<close> gives: \<open>None\<close> where the call raises, otherwise
    the address of the column's data body range (\<open>None\<close> when there is no such range or
    address); and \<^verbatim>\<open>sheet.api.Evaluate(expr)\<close>: \<open>None\<close> where the call raises, otherwise
    the \<^verbatim>\<open>Address\<close> attribute of the result (\<open>None\<close> when the result has none);
  \<^item> of the workbook: its sheets, the lookup \<^verbatim>\<open>workbook.sheets[name]\<close> (\<open>None\<close> where it
    raises), the defined names, each with its \<^verbatim>\<open>name\<close> and \<^verbatim>\<open>refers_to\<close> attributes, and
    the application's \<^verbatim>\<open>app.api.Evaluate(expr)\<close>.
  The extractor's current worksheet, \<^verbatim>\<open>self.worksheet\<close>, is the parameter \<open>cur\<close>.
\<close>

record xl_sheet =
  sheet_name :: string
  range_value :: "string \<Rightarrow> pyval option"
  list_objects :: "(string \<times> (string \<Rightarrow> string option option)) list"
  sheet_evaluate :: "string \<Rightarrow> string option option"

record xl_workbook =
  sheets :: "xl_sheet list"
  sheet_by_name :: "string \<Rightarrow> xl_sheet option"
  names :: "(string option \<times> string option) list"
  app_evaluate :: "string \<Rightarrow> string option option"

definition flatten_row :: "pyval \<Rightarrow> pyval list" where
  "flatten_row row =
     (case row of
        PList itms \<Rightarrow> filter (\<lambda>itm. itm \<noteq> PNone) itms
      | _ \<Rightarrow> (if row \<noteq> PNone then [row] else []))"

definition flatten_to_list :: "pyval \<Rightarrow> pyval list" where
  \<comment> \<open>\<^verbatim>\<open>_flatten_to_list\<close>: \<^verbatim>\<open>None\<close> is left out both inside a row and among the
      elements that are not lists\<close>
  "flatten_to_list vals =
     (case vals of
        PList rows \<Rightarrow> concat (map flatten_row rows)
      | PNone \<Rightarrow> []
      | _ \<Rightarrow> [vals])"

definition values_from_range_on_sheet :: "xl_sheet \<Rightarrow> string \<Rightarrow> pyval list option" where
  "values_from_range_on_sheet sheet addr =
     (case range_value sheet addr of
        None \<Rightarrow> None
      | Some vals \<Rightarrow> Some (flatten_to_list vals))"

definition evaluate_in_excel :: "xl_workbook \<Rightarrow> string \<Rightarrow> xl_sheet \<Rightarrow> string option" where
  \<comment> \<open>\<^verbatim>\<open>_evaluate_in_excel\<close> followed by \<^verbatim>\<open>getattr(res, "Address", None)\<close>: the sheet's
      evaluation, the application's when that raises, \<^verbatim>\<open>None\<close> when both raise\<close>
  "evaluate_in_excel wb expr sheet =
     (case sheet_evaluate sheet expr of
        Some res \<Rightarrow> res
      | None \<Rightarrow> (case app_evaluate wb expr of Some res \<Rightarrow> res | None \<Rightarrow> None))"

fun evaluate_on_sheets :: "xl_workbook \<Rightarrow> string \<Rightarrow> xl_sheet list \<Rightarrow> pyval list option" where
  \<comment> \<open>the loop \<^verbatim>\<open>for ws in self.workbook.sheets\<close> of \<^verbatim>\<open>_try_resolve_named_range\<close>: the
      first sheet on which the expression evaluates to something with an address whose
      values can be read\<close>
  "evaluate_on_sheets wb f [] = None"
| "evaluate_on_sheets wb f (ws # rest) =
     (case evaluate_in_excel wb f ws of
        None \<Rightarrow> evaluate_on_sheets wb f rest
      | Some addr \<Rightarrow>
          if addr = [] then evaluate_on_sheets wb f rest
          else (case range_value ws addr of
                  Some vals \<Rightarrow> Some (flatten_to_list vals)
                | None \<Rightarrow> evaluate_on_sheets wb f rest))"

definition name_matches :: "string \<Rightarrow> string \<Rightarrow> bool" where
  \<comment> \<open>\<^verbatim>\<open>n.replace(" ", "").lower() == target.replace(" ", "").lower()\<close>\<close>
  "name_matches n target \<longleftrightarrow> lower (remove_spaces n) = lower (remove_spaces target)"

fun named_range_loop ::
  "xl_workbook \<Rightarrow> xl_sheet \<Rightarrow> string \<Rightarrow> (string option \<times> string option) list
     \<Rightarrow> pyval list option" where
  \<comment> \<open>the loop \<^verbatim>\<open>for nm in self.workbook.names\<close>. A name without a \<^verbatim>\<open>name\<close> or without a
      \<^verbatim>\<open>refers_to\<close> is skipped. A matching name that refers to a range (\<^verbatim>\<open>!\<close> or \<^verbatim>\<open>:\<close>
      in the text) ends the loop with that range's values, or with \<^verbatim>\<open>None\<close> when the
      sheet lookup raises; for any other matching name the expression is evaluated on
      each sheet, and the loop goes on when no sheet gives values.\<close>
  "named_range_loop wb cur target [] = None"
| "named_range_loop wb cur target ((n, refers_to) # rest) =
     (case n of
        None \<Rightarrow> named_range_loop wb cur target rest
      | Some n \<Rightarrow>
          if n = [] then named_range_loop wb cur target rest
          else if name_matches n target
          then (case refers_to of
                  None \<Rightarrow> named_range_loop wb cur target rest
                | Some r \<Rightarrow>
                    if r = [] then named_range_loop wb cur target rest
                    else (let f = (if startswith r CHR ''='' then tl r else r)
                          in if has CHR ''!'' f \<or> has CHR '':'' f
                             then (if has CHR ''!'' f
                                   then (let sn = strip_char CHR 0x27 (strip (fst (split_once CHR ''!'' f)));
                                             addr = snd (split_once CHR ''!'' f)
                                         in if sn \<noteq> []
                                            then (case sheet_by_name wb sn of
                                                    None \<Rightarrow> None
                                                  | Some sheet \<Rightarrow> values_from_range_on_sheet sheet addr)
                                            else values_from_range_on_sheet cur addr)
                                   else values_from_range_on_sheet cur f)
                             else (case evaluate_on_sheets wb f (sheets wb) of
                                     Some vals \<Rightarrow> Some vals
                                   | None \<Rightarrow> named_range_loop wb cur target rest)))
          else named_range_loop wb cur target rest)"

definition try_resolve_named_range :: "xl_workbook \<Rightarrow> xl_sheet \<Rightarrow> string \<Rightarrow> pyval list option" where
  \<comment> \<open>\<^verbatim>\<open>_try_resolve_named_range\<close>: \<^verbatim>\<open>target = name.strip().strip("'")\<close>\<close>
  "try_resolve_named_range wb cur name =
     named_range_loop wb cur (strip_char CHR 0x27 (strip name)) (names wb)"

fun table_column_list_objects ::
  "xl_sheet \<Rightarrow> string \<Rightarrow> string \<Rightarrow> (string \<times> (string \<Rightarrow> string option option)) list
     \<Rightarrow> pyval list option" where
  \<comment> \<open>the loop over the list objects of one sheet in \<^verbatim>\<open>_try_resolve_table_column\<close>;
      \<open>None\<close> means that no list object of the sheet gave values\<close>
  "table_column_list_objects ws table_name col_name [] = None"
| "table_column_list_objects ws table_name col_name ((lo_name, list_columns) # rest) =
     (if lo_name = table_name
      then (case list_columns col_name of
              None \<Rightarrow> table_column_list_objects ws table_name col_name rest
            | Some None \<Rightarrow> table_column_list_objects ws table_name col_name rest
            | Some (Some addr) \<Rightarrow>
                if addr = [] then table_column_list_objects ws table_name col_name rest
                else (case range_value ws addr of
                        None \<Rightarrow> table_column_list_objects ws table_name col_name rest
                      | Some vals \<Rightarrow> Some (flatten_to_list vals)))
      else table_column_list_objects ws table_name col_name rest)"

fun table_column_xl_sheets :: "xl_sheet list \<Rightarrow> string \<Rightarrow> string \<Rightarrow> pyval list option" where
  "table_column_xl_sheets [] table_name col_name = None"
| "table_column_xl_sheets (ws # rest) table_name col_name =
     (case table_column_list_objects ws table_name col_name (list_objects ws) of
        Some vals \<Rightarrow> Some vals
      | None \<Rightarrow> table_column_xl_sheets rest table_name col_name)"

definition try_resolve_table_column :: "xl_workbook \<Rightarrow> string \<Rightarrow> pyval list option" where
  \<comment> \<open>\<^verbatim>\<open>_try_resolve_table_column\<close>: \<^verbatim>\<open>text = structured_ref.strip().strip("'")\<close>\<close>
  "try_resolve_table_column wb structured_ref =
     (let text = strip_char CHR 0x27 (strip structured_ref)
      in if has CHR ''['' text \<and> has CHR '']'' text
         then table_column_xl_sheets (sheets wb) (table_name_of text) (col_name_of text)
         else None)"

definition after_table_column_xl :: "xl_workbook \<Rightarrow> xl_sheet \<Rightarrow> string \<Rightarrow> pyval list option" where
  \<comment> \<open>what \<^verbatim>\<open>_resolve_validation_list_items\<close> does below the table block: the range
      block, the named range, and as the last resort the evaluation of the text on the
      current worksheet\<close>
  "after_table_column_xl wb cur f =
     (let last_resort =
            (case try_resolve_named_range wb cur f of
               Some named_vals \<Rightarrow> Some named_vals
             | None \<Rightarrow>
                 (case evaluate_in_excel wb f cur of
                    None \<Rightarrow> None
                  | Some addr \<Rightarrow> if addr = [] then None else values_from_range_on_sheet cur addr))
      in if has CHR ''!'' f \<or> has CHR '':'' f
         then (if has CHR ''!'' f
               then (case sheet_by_name wb (strip_char CHR 0x27 (strip (fst (split_once CHR ''!'' f)))) of
                       None \<Rightarrow> None
                     | Some target_sheet \<Rightarrow>
                         (case values_from_range_on_sheet target_sheet (snd (split_once CHR ''!'' f)) of
                            Some vals \<Rightarrow> Some vals
                          | None \<Rightarrow> last_resort))
               else (case values_from_range_on_sheet cur f of
                       Some vals \<Rightarrow> Some vals
                     | None \<Rightarrow> last_resort))
         else last_resort)"

definition resolve_validation_list_items_xl ::
  "xl_workbook \<Rightarrow> xl_sheet \<Rightarrow> string option \<Rightarrow> pyval list option" where
  \<comment> \<open>\<^verbatim>\<open>ExcelFormulaExtractor._resolve_validation_list_items(cell, formula1)\<close>\<close>
  "resolve_validation_list_items_xl wb cur formula1 =
     (case formula1 of
        None \<Rightarrow> None
      | Some s \<Rightarrow>
          if s = [] then None
          else (let f = normalize_source s
                in if is_literal_list f then Some (literal_items f)
                   else (case (if has CHR ''['' f \<and> has CHR '']'' f
                               then try_resolve_table_column wb f else None) of
                           Some resolved \<Rightarrow> Some resolved
                         | None \<Rightarrow> after_table_column_xl wb cur f)))"

section \<open>Cell records\<close>

text \<open>
  \<^verbatim>\<open>_extract_cell_full_details\<close> builds one dictionary per cell. The helper methods that
  fill the entries \<^verbatim>\<open>format\<close>, \<^verbatim>\<open>hyperlink\<close>, \<^verbatim>\<open>note\<close>, \<^verbatim>\<open>data_validation\<close> (and
  \<^verbatim>\<open>display_text\<close> in the live-application extractor) catch their own exceptions; what
  they return for the cell is part of the cell as the model sees it.

  The file-parsing extractor reads \<^verbatim>\<open>cell.value\<close> only: a string that starts with
  \<^verbatim>\<open>=\<close> is the formula. The column letter comes from the library's
  \<^verbatim>\<open>get_column_letter\<close>, a parameter here that is \<open>None\<close> where the library raises; the
  exception leaves \<^verbatim>\<open>_extract_cell_full_details\<close>, and the result is \<open>None\<close>.
\<close>

record opx_cell =
  coordinate :: string
  cell_row :: int
  cell_column :: int
  cell_val :: pyval
  cell_format :: pyval
  cell_hyperlink :: pyval
  cell_note :: pyval
  cell_validation :: pyval

definition formula_of_value :: "pyval \<Rightarrow> string option" where
  \<comment> \<open>\<^verbatim>\<open>value if isinstance(value, str) and value.startswith("=") else None\<close>\<close>
  "formula_of_value v =
     (case v of PStr s \<Rightarrow> if startswith s CHR ''='' then Some s else None | _ \<Rightarrow> None)"

definition extract_cell_full_details :: "(int \<Rightarrow> string option) \<Rightarrow> opx_cell \<Rightarrow> pyval option" where
  "extract_cell_full_details get_column_letter cell =
     (let v = cell_val cell;
          formula = formula_of_value v
      in case get_column_letter (cell_column cell) of
           None \<Rightarrow> None
         | Some letter \<Rightarrow>
             Some (PDict
               [(''address'', PStr (coordinate cell)),
                (''row'', PNum (cell_row cell)),
                (''column'', PNum (cell_column cell)),
                (''column_letter'', PStr letter),
                (''value'', (case formula of Some _ \<Rightarrow> PNone | None \<Rightarrow> v)),
                (''formula'', (case formula of Some s \<Rightarrow> PStr s | None \<Rightarrow> PNone)),
                (''display_text'', PNone),
                (''format'', cell_format cell),
                (''hyperlink'', cell_hyperlink cell),
                (''note'', cell_note cell),
                (''data_validation'', cell_validation cell)]))"

text \<open>
  The live-application extractor reads \<^verbatim>\<open>cell.value\<close> and \<^verbatim>\<open>cell.formula\<close>, each in its
  own \<^verbatim>\<open>try\<close> (\<open>None\<close> here where the read raises, which the code turns into
  \<^verbatim>\<open>None\<close>), and stores both: \<^verbatim>\<open>"value": value, "formula": formula if formula else None\<close>.
\<close>

record xl_cell =
  xl_address :: string
  xl_row :: int
  xl_column :: int
  xl_value :: "pyval option"
  xl_formula :: "string option"
  xl_display_text :: pyval
  xl_format :: pyval
  xl_hyperlink :: pyval
  xl_note :: pyval
  xl_validation :: pyval

definition extract_cell_full_details_xl :: "xl_cell \<Rightarrow> pyval" where
  "extract_cell_full_details_xl cell =
     (let v = (case xl_value cell of None \<Rightarrow> PNone | Some x \<Rightarrow> x);
          formula = (case xl_formula cell of None \<Rightarrow> PNone | Some s \<Rightarrow> PStr s)
      in PDict
           [(''address'', PStr (xl_address cell)),
            (''row'', PNum (xl_row cell)),
            (''column'', PNum (xl_column cell)),
            (''column_letter'', PStr (column_to_letter (xl_column cell))),
            (''value'', v),
            (''formula'', (if truthy formula then formula else PNone)),
            (''display_text'', xl_display_text cell),
            (''format'', xl_format cell),
            (''hyperlink'', xl_hyperlink cell),
            (''note'', xl_note cell),
            (''data_validation'', xl_validation cell)])"

section \<open>Sheets and workbooks\<close>

text \<open>
  The dictionary \<^verbatim>\<open>extract_workbook_full_details\<close> returns, in both extractors:
  \<open>file_path\<close> is the path's text, \<open>timestamp\<close> what \<^verbatim>\<open>datetime.now().isoformat()\<close>
  gives, \<open>sheet_count\<close> the length of the workbook's sheet collection, \<open>all_sheets\<close> the
  entries the loop has appended, \<open>name_entries\<close> the entries collected for the defined
  names. \<open>degraded_sheet\<close> is the record the handler of the loop builds for a sheet name
  and an exception \<^verbatim>\<open>e\<close>:
  \<^verbatim>\<open>{"sheet": {"name": <sheet name>, "error": str(e)}, "cells": [], "tables": []}\<close>.
\<close>

definition workbook_record ::
  "string \<Rightarrow> string \<Rightarrow> nat \<Rightarrow> pyval list \<Rightarrow> pyval list \<Rightarrow> (string \<times> pyval) list" where
  "workbook_record file_path timestamp sheet_count all_sheets name_entries =
     [(''file_path'', PStr file_path),
      (''extraction_timestamp'', PStr timestamp),
      (''workbook'', PDict
          [(''sheet_count'', PNum (int sheet_count)),
           (''sheets'', PList all_sheets),
           (''names'', PList name_entries)])]"

definition degraded_sheet :: "string \<Rightarrow> string \<Rightarrow> pyval" where
  "degraded_sheet name e =
     PDict [(''sheet'', PDict [(''name'', PStr name), (''error'', PStr e)]),
            (''cells'', PList []),
            (''tables'', PList [])]"

subsection \<open>The file-parsing extractor\<close>

text \<open>
  \<^verbatim>\<open>OpenpyxlExcelExtractor.extract_workbook_full_details\<close>: for each worksheet, in order,
  \<^verbatim>\<open>all_sheets.append(self.extract_sheet_full_details(ws.title))\<close> in a \<^verbatim>\<open>try\<close> whose
  handler appends the degraded record with \<^verbatim>\<open>ws.title\<close>; the title is a plain attribute
  of the worksheet.

  The method \<^verbatim>\<open>extract_sheet_full_details\<close> of this extractor has no translation: as it
  is written (openpyxl_extractor.py, lines 314 to 328) the two \<^verbatim>\<open>try\<close> statements of
  its table loop have no handler, the only \<^verbatim>\<open>except\<close> standing at the indentation of
  the \<^verbatim>\<open>for\<close> between them, so the text is not a Python function. The loop is therefore
  modelled over an arbitrary outcome of the sheet extraction, \<open>extract\<close>: for each
  worksheet the message of an exception, or a record.
\<close>

fun all_sheets_loop :: "(worksheet \<Rightarrow> string + pyval) \<Rightarrow> worksheet list \<Rightarrow> pyval list" where
  "all_sheets_loop extract [] = []"
| "all_sheets_loop extract (ws # rest) =
     (case extract ws of
        Inr sheet_record \<Rightarrow> sheet_record
      | Inl e \<Rightarrow> degraded_sheet (title ws) e) # all_sheets_loop extract rest"

definition extract_workbook_full_details ::
  "(worksheet \<Rightarrow> string + pyval) \<Rightarrow> string \<Rightarrow> string \<Rightarrow> worksheet list \<Rightarrow> pyval list
     \<Rightarrow> (string \<times> pyval) list" where
  "extract_workbook_full_details extract file_path timestamp wss name_entries =
     workbook_record file_path timestamp (length wss) (all_sheets_loop extract wss) name_entries"

subsection \<open>The live-application extractor\<close>

text \<open>
  What the walk of \<^verbatim>\<open>ExcelFormulaExtractor\<close> reads from the application, every read
  giving the same result each time it is made during the walk. Of a sheet:
  \<^item> \<open>x_name\<close>: its name (\<^verbatim>\<open>ws.name\<close>, \<^verbatim>\<open>self.worksheet.name\<close>), or the message of the
    exception the read raises;
  \<^item> \<open>x_used_range\<close>: the address, row count and column count of
    \<^verbatim>\<open>self.worksheet.used_range\<close>, or \<open>None\<close> where one of these reads raises;
  \<^item> \<open>x_api_used_range\<close>: the same through \<^verbatim>\<open>self.worksheet.api.UsedRange\<close>, with
    \<^verbatim>\<open>getattr\<close> defaults (no address: \<open>None\<close>; no count: 0), or \<open>None\<close> where a read
    raises;
  \<^item> \<open>x_cell\<close>: the cell \<^verbatim>\<open>self.worksheet.cells(row, col)\<close>, or \<open>None\<close> where getting the
    cell or building its record raises;
  \<^item> \<open>x_tables\<close>: the entries the loop over the list objects appends before it ends or
    raises;
  \<^item> \<open>x_props\<close>: \<^verbatim>\<open>Visible\<close>, \<^verbatim>\<open>ProtectContents\<close>, \<^verbatim>\<open>ProtectDrawing\<close> and
    \<^verbatim>\<open>ProtectScenarios\<close> of \<^verbatim>\<open>self.worksheet.api\<close>, or \<open>None\<close> where a read raises.

  Of the workbook: \<open>w_sheets_read\<close>, the sheets of \<^verbatim>\<open>self.workbook.sheets\<close> in order, or
  the message of the exception the read raises; \<open>w_lookup\<close>, the sheet
  \<^verbatim>\<open>self.workbook.sheets[sheet_name]\<close>, \<open>None\<close> where the lookup raises; \<open>w_active\<close>, the
  sheet \<^verbatim>\<open>self.workbook.sheets.active\<close>, \<open>None\<close> where the read raises.
\<close>

record xl_walk_sheet =
  x_name :: "string + string"
  x_used_range :: "(string \<times> int \<times> int) option"
  x_api_used_range :: "(string option \<times> int \<times> int) option"
  x_cell :: "int \<Rightarrow> int \<Rightarrow> xl_cell option"
  x_tables :: "pyval list"
  x_props :: "(pyval \<times> pyval \<times> pyval \<times> pyval) option"

record xl_walk_workbook =
  w_sheets_read :: "string + xl_walk_sheet list"
  w_lookup :: "string \<Rightarrow> xl_walk_sheet option"
  w_active :: "xl_walk_sheet option"

fun dict_set :: "(string \<times> pyval) list \<Rightarrow> string \<Rightarrow> pyval \<Rightarrow> (string \<times> pyval) list" where
  \<comment> \<open>\<^verbatim>\<open>d[key] = value\<close>: an existing key keeps its place, a new key goes to the end\<close>
  "dict_set [] k v = [(k, v)]"
| "dict_set ((k', v') # d) k v =
     (if k' = k then (k, v) # d else (k', v') # dict_set d k v)"

definition get_worksheet_info_xl ::
  "xl_walk_workbook \<Rightarrow> xl_walk_sheet \<Rightarrow> string option
     \<Rightarrow> (string \<times> pyval) list \<times> xl_walk_sheet" where
  \<comment> \<open>\<^verbatim>\<open>get_worksheet_info(sheet_name)\<close>, with \<^verbatim>\<open>self.worksheet\<close> passed in as \<open>cur\<close> and
      returned with the result: the method selects the worksheet, reads its used range and
      builds the dictionary, all in one \<^verbatim>\<open>try\<close> whose handler returns \<^verbatim>\<open>{}\<close>\<close>
  "get_worksheet_info_xl wb cur sheet_nm =
     (case (case sheet_nm of
              None \<Rightarrow> w_active wb
            | Some n \<Rightarrow> if n \<noteq> [] then w_lookup wb n else w_active wb) of
        None \<Rightarrow> ([], cur)
      | Some ws \<Rightarrow>
          (case x_used_range ws of
             None \<Rightarrow> ([], ws)
           | Some (address, rows, cols) \<Rightarrow>
               (case x_name ws of
                  Inl e \<Rightarrow> ([], ws)
                | Inr n \<Rightarrow>
                    ([(''sheet_name'', PStr n),
                      (''used_range'', PStr address),
                      (''rows'', PNum rows),
                      (''columns'', PNum cols),
                      (''total_cells'', PNum (rows * cols))], ws))))"

definition extract_sheet_full_details_xl ::
  "xl_walk_workbook \<Rightarrow> xl_walk_sheet \<Rightarrow> string option \<Rightarrow> pyval" where
  \<comment> \<open>\<^verbatim>\<open>ExcelFormulaExtractor.extract_sheet_full_details(sheet_name)\<close>, with
      \<^verbatim>\<open>self.worksheet\<close> passed in as \<open>cur\<close>. Every read of the body is guarded: the used
      range by a \<^verbatim>\<open>try\<close> that falls back on \<^verbatim>\<open>api.UsedRange\<close> and then on
      \<^verbatim>\<open>None, 0, 0\<close>; each cell by a \<^verbatim>\<open>try\<close> that skips it; the tables and the sheet
      properties by a \<^verbatim>\<open>try\<close> each; and \<^verbatim>\<open>get_worksheet_info\<close> by its own. Nothing else
      in the body raises on these values, so the handler around the body, which would
      return the sheet's name with the error text, is never entered.\<close>
  "extract_sheet_full_details_xl wb cur sheet_nm =
     (let (sheet_info, ws) = get_worksheet_info_xl wb cur sheet_nm;
          (used_address, rows_count, cols_count) =
            (case x_used_range ws of
               Some (address, rows, cols) \<Rightarrow> (Some address, rows, cols)
             | None \<Rightarrow>
                 (case x_api_used_range ws of
                    Some (address, rows, cols) \<Rightarrow> (address, rows, cols)
                  | None \<Rightarrow> (None, 0, 0)));
          cell_records =
            (if rows_count \<noteq> 0 \<and> cols_count \<noteq> 0
             then concat (map (\<lambda>row. List.map_filter
                                 (\<lambda>col. map_option extract_cell_full_details_xl (x_cell ws row col))
                                 [1 .. cols_count])
                              [1 .. rows_count])
             else []);
          table_entries = x_tables ws;
          (visible, protect_contents, protect_drawing, protect_scenarios) =
            (case x_props ws of
               Some props \<Rightarrow> props
             | None \<Rightarrow> (PNone, PNone, PNone, PNone));
          sheet_info =
            (case used_address of
               None \<Rightarrow> sheet_info
             | Some address \<Rightarrow>
                 if address = [] then sheet_info
                 else dict_set
                        (dict_set
                           (dict_set (dict_set sheet_info ''used_range'' (PStr address))
                              ''rows'' (PNum rows_count))
                           ''columns'' (PNum cols_count))
                        ''total_cells'' (PNum (rows_count * cols_count)))
      in PDict
           [(''sheet'', PDict
               [(''name'', dict_get sheet_info ''sheet_name''),
                (''used_range'', dict_get sheet_info ''used_range''),
                (''rows'', dict_get sheet_info ''rows''),
                (''columns'', dict_get sheet_info ''columns''),
                (''visible'', visible),
                (''protect_contents'', protect_contents),
                (''protect_drawing'', protect_drawing),
                (''protect_scenarios'', protect_scenarios)]),
            (''cells'', PList cell_records),
            (''tables'', PList table_entries)])"

fun all_sheets_loop_xl :: "xl_walk_workbook \<Rightarrow> xl_walk_sheet list \<Rightarrow> pyval list option" where
  \<comment> \<open>the loop \<^verbatim>\<open>for ws in self.workbook.sheets\<close>; \<open>None\<close> means that an exception has
      left the loop. The \<^verbatim>\<open>try\<close> evaluates
      \<^verbatim>\<open>self.extract_sheet_full_details(ws.name)\<close>, where only reading the name can raise;
      its handler reads \<^verbatim>\<open>ws.name\<close> again, first of all for the message it prints, and
      that read is outside any \<^verbatim>\<open>try\<close> of the loop.\<close>
  "all_sheets_loop_xl wb [] = Some []"
| "all_sheets_loop_xl wb (ws # rest) =
     (case (case x_name ws of
              Inl e \<Rightarrow> Inl e
            | Inr n \<Rightarrow> Inr (extract_sheet_full_details_xl wb ws (Some n))) of
        Inr sheet_record \<Rightarrow> map_option (\<lambda>all_sheets. sheet_record # all_sheets)
                              (all_sheets_loop_xl wb rest)
      | Inl e \<Rightarrow>
          (case x_name ws of
             Inl e' \<Rightarrow> None
           | Inr n \<Rightarrow> map_option (\<lambda>all_sheets. degraded_sheet n e # all_sheets)
                        (all_sheets_loop_xl wb rest)))"

definition extract_workbook_full_details_xl ::
  "xl_walk_workbook \<Rightarrow> string \<Rightarrow> string \<Rightarrow> pyval list \<Rightarrow> (string \<times> pyval) list" where
  \<comment> \<open>\<^verbatim>\<open>ExcelFormulaExtractor.extract_workbook_full_details\<close>: the whole method is in a
      \<^verbatim>\<open>try\<close> whose handler returns the empty dictionary\<close>
  "extract_workbook_full_details_xl wb file_path timestamp name_entries =
     (case w_sheets_read wb of
        Inl e \<Rightarrow> []
      | Inr wss \<Rightarrow>
          (case all_sheets_loop_xl wb wss of
             None \<Rightarrow> []
           | Some all_sheets \<Rightarrow>
               workbook_record file_path timestamp (length wss) all_sheets name_entries))"

definition detect_structure :: "(string \<times> pyval) list \<Rightarrow> string" where
  \<comment> \<open>\<^verbatim>\<open>detect_structure\<close> of the converter: which shape a loaded JSON document has\<close>
  "detect_structure data =
     (if (case map_of data ''workbook'' of
            Some (PDict wb) \<Rightarrow> map_of wb ''sheets'' \<noteq> None
          | _ \<Rightarrow> False)
      then ''workbook''
      else if map_of data ''sheet'' \<noteq> None \<and> map_of data ''cells'' \<noteq> None then ''sheet''
      else ''unknown'')"

section \<open>The CSV exporter\<close>

text \<open>
  \<^verbatim>\<open>write_sheet_csvs\<close> of the converter writes three files for a sheet with the same
  \<^verbatim>\<open>write_csv\<close>: all cells, the cells with a formula, the cells with a data validation. A
  cell is a dictionary. The model keeps, for each file, the rows handed to
  \<^verbatim>\<open>csv.writer.writerow\<close> in order; how the library quotes a row and the names of the
  files are left out. Python's \<^verbatim>\<open>str\<close>, applied to the elements of a list, is the
  parameter \<open>py_str\<close>.
\<close>

definition columns :: "string list" where
  "columns =
     [''address'', ''row'', ''column'', ''column_letter'',
      ''value'', ''display_text'', ''formula'',
      ''format.number_format'', ''format.font_name'', ''format.font_size'',
      ''format.font_bold'', ''format.font_italic'',
      ''hyperlink.address'', ''note'',
      ''data_validation.type_name'', ''data_validation.formula1'',
      ''data_validation.formula2'', ''data_validation.list_items'',
      ''format.merged'', ''format.merge_area'']"

fun get_nested_parts :: "pyval \<Rightarrow> string list \<Rightarrow> pyval" where
  \<comment> \<open>the loop of \<^verbatim>\<open>get_nested\<close>: a value that is not a dictionary ends the walk with
      \<^verbatim>\<open>None\<close>\<close>
  "get_nested_parts cur [] = cur"
| "get_nested_parts cur (part # rest) =
     (case cur of PDict d \<Rightarrow> get_nested_parts (dict_get d part) rest | _ \<Rightarrow> PNone)"

definition get_nested :: "(string \<times> pyval) list \<Rightarrow> string \<Rightarrow> pyval" where
  "get_nested d path = get_nested_parts (PDict d) (split_on CHR ''.'' path)"

fun join :: "string \<Rightarrow> string list \<Rightarrow> string" where
  \<comment> \<open>\<^verbatim>\<open>sep.join(xs)\<close>\<close>
  "join sep [] = []"
| "join sep [x] = x"
| "join sep (x # y # ys) = x @ sep @ join sep (y # ys)"

definition csv_value :: "(pyval \<Rightarrow> string) \<Rightarrow> (string \<times> pyval) list \<Rightarrow> string \<Rightarrow> pyval" where
  \<comment> \<open>one entry of a line: \<^verbatim>\<open>val = get_nested(r, col) if "." in col else r.get(col)\<close>,
      and a list is replaced by \<^verbatim>\<open>", ".join(str(x) for x in val)\<close>\<close>
  "csv_value py_str r col =
     (let val = (if has CHR ''.'' col then get_nested r col else dict_get r col)
      in case val of PList xs \<Rightarrow> PStr (join '', '' (map py_str xs)) | _ \<Rightarrow> val)"

definition write_csv :: "(pyval \<Rightarrow> string) \<Rightarrow> (string \<times> pyval) list list \<Rightarrow> pyval list list" where
  "write_csv py_str rows =
     map PStr columns # map (\<lambda>r. map (csv_value py_str r) columns) rows"

record sheet_csvs =
  cells_csv :: "pyval list list"
  formulas_csv :: "pyval list list"
  validations_csv :: "pyval list list"

definition write_sheet_csvs :: "(pyval \<Rightarrow> string) \<Rightarrow> (string \<times> pyval) list list \<Rightarrow> sheet_csvs" where
  "write_sheet_csvs py_str cells =
     \<lparr>cells_csv = write_csv py_str cells,
      formulas_csv = write_csv py_str (filter (\<lambda>c. truthy (dict_get c ''formula'')) cells),
      validations_csv =
        write_csv py_str (filter (\<lambda>c. truthy (dict_get c ''data_validation'')) cells)\<rparr>"

section \<open>Example workbooks\<close>

text \<open>
  A small workbook for each extractor, used to run the model. Sheet1 holds 10, an empty
  cell and 30 in a column. For the file-parsing extractor the column is A1:A3 and the
  defined name MyRange points at it. For the live-application extractor the column is the
  data body A2:A4 of the column Col of the list object Table1, the defined name MyRange
  refers to it, and the application evaluates \<^verbatim>\<open>INDIRECT("Table1[Col]")\<close> to that range;
  a second list object, named \<^verbatim>\<open>A,B\<close>, has a column C with the data body C2:C3.
\<close>

definition example_cell_range :: "string \<Rightarrow> bounds option" where
  "example_cell_range ref =
     (if ref = ''$A$1:$A$3'' then Some \<lparr>min_row = 1, min_col = 1, max_row = 3, max_col = 1\<rparr>
      else None)"

definition example_worksheet :: worksheet where
  "example_worksheet =
     \<lparr>title = ''Sheet1'',
      cell_value = (\<lambda>r c. if c = 1 \<and> r = 1 then PNum 10
                            else if c = 1 \<and> r = 3 then PNum 30 else PNone),
      tables = []\<rparr>"

definition example_workbook :: workbook where
  "example_workbook =
     \<lparr>worksheets = [example_worksheet],
      sheet_by_title = (\<lambda>t. if t = ''Sheet1'' then Some example_worksheet else None),
      defined_names = [(''MyRange'', [(''Sheet1'', ''$A$1:$A$3'')])]\<rparr>"

definition indirect_source :: string where
  "indirect_source = ''=INDIRECT('' @ [CHR 0x22] @ ''Table1[Col]'' @ [CHR 0x22] @ '')''"

definition example_xl_sheet :: xl_sheet where
  "example_xl_sheet =
     \<lparr>sheet_name = ''Sheet1'',
      range_value = (\<lambda>addr. if addr = ''$A$2:$A$4'' then Some (PList [PNum 10, PNone, PNum 30])
                             else if addr = ''$C$2:$C$3'' then Some (PList [PStr ''x'', PStr ''y''])
                             else None),
      list_objects =
        [(''Table1'', (\<lambda>col. if col = ''Col'' then Some (Some ''$A$2:$A$4'') else None)),
         (''A,B'', (\<lambda>col. if col = ''C'' then Some (Some ''$C$2:$C$3'') else None))],
      sheet_evaluate = (\<lambda>expr. if expr = tl indirect_source then Some (Some ''$A$2:$A$4'')
                                 else Some None)\<rparr>"

definition example_xl_workbook :: xl_workbook where
  "example_xl_workbook =
     \<lparr>sheets = [example_xl_sheet],
      sheet_by_name = (\<lambda>n. if n = ''Sheet1'' then Some example_xl_sheet else None),
      names = [(Some ''MyRange'', Some ''=Sheet1!$A$2:$A$4'')],
      app_evaluate = (\<lambda>expr. Some None)\<rparr>"

definition quoted :: "string \<Rightarrow> string" where
  \<comment> \<open>the text between a pair of double quotes\<close>
  "quoted s = [CHR 0x22] @ s @ [CHR 0x22]"

definition example_formula_cell :: xl_cell where
  "example_formula_cell =
     \<lparr>xl_address = ''$C$1'', xl_row = 1, xl_column = 3,
      xl_value = Some (PNum 3), xl_formula = Some ''=A1+B1'',
      xl_display_text = PStr ''3'', xl_format = PDict [], xl_hyperlink = PNone,
      xl_note = PNone, xl_validation = PNone\<rparr>"

definition example_opx_cell :: "pyval \<Rightarrow> opx_cell" where
  "example_opx_cell v =
     \<lparr>coordinate = ''C1'', cell_row = 1, cell_column = 3, cell_val = v,
      cell_format = PDict [], cell_hyperlink = PNone, cell_note = PNone,
      cell_validation = PNone\<rparr>"

definition example_column_letter :: "int \<Rightarrow> string option" where
  \<comment> \<open>the library's \<^verbatim>\<open>get_column_letter\<close> accepts the columns 1 to 18278\<close>
  "example_column_letter col =
     (if 1 \<le> col \<and> col \<le> 18278 then Some (column_to_letter col) else None)"

text \<open>
  Workbooks for the walk of the live-application extractor, with the sheets Data, Broken
  and Last. Data and Last have one used cell, A1. Of the sheet Broken nothing can be read
  but, in \<open>example_unreadable_sheet\<close>, its name; in \<open>example_lost_sheet\<close> reading the name
  raises as well.
\<close>

definition example_live_cell :: xl_cell where
  "example_live_cell =
     \<lparr>xl_address = ''$A$1'', xl_row = 1, xl_column = 1,
      xl_value = Some (PNum 10), xl_formula = Some ''10'',
      xl_display_text = PStr ''10'', xl_format = PDict [], xl_hyperlink = PNone,
      xl_note = PNone, xl_validation = PNone\<rparr>"

definition example_live_sheet :: "string \<Rightarrow> xl_walk_sheet" where
  "example_live_sheet n =
     \<lparr>x_name = Inr n,
      x_used_range = Some (''$A$1'', 1, 1),
      x_api_used_range = Some (Some ''$A$1'', 1, 1),
      x_cell = (\<lambda>row col. if row = 1 \<and> col = 1 then Some example_live_cell else None),
      x_tables = [],
      x_props = Some (PNum (-1), PBool False, PBool False, PBool False)\<rparr>"

definition example_unreadable_sheet :: xl_walk_sheet where
  "example_unreadable_sheet =
     \<lparr>x_name = Inr ''Broken'',
      x_used_range = None,
      x_api_used_range = None,
      x_cell = (\<lambda>row col. None),
      x_tables = [],
      x_props = None\<rparr>"

definition example_lost_sheet :: xl_walk_sheet where
  "example_lost_sheet =
     \<lparr>x_name = Inl ''sheet is not accessible'',
      x_used_range = None,
      x_api_used_range = None,
      x_cell = (\<lambda>row col. None),
      x_tables = [],
      x_props = None\<rparr>"

definition example_live_workbook :: "xl_walk_sheet \<Rightarrow> xl_walk_workbook" where
  \<comment> \<open>the workbook with the given sheet as its sheet Broken\<close>
  "example_live_workbook broken =
     \<lparr>w_sheets_read = Inr [example_live_sheet ''Data'', broken, example_live_sheet ''Last''],
      w_lookup = (\<lambda>n. if n = ''Data'' then Some (example_live_sheet ''Data'')
                       else if n = ''Broken'' then Some broken
                       else if n = ''Last'' then Some (example_live_sheet ''Last'')
                       else None),
      w_active = Some (example_live_sheet ''Data'')\<rparr>"

definition example_sheet_outcome :: "worksheet \<Rightarrow> string + pyval" where
  \<comment> \<open>an outcome of the sheet extraction for the loop of the file-parsing extractor: an
      exception for every sheet\<close>
  "example_sheet_outcome ws = Inl ''sheet is not accessible''"

fun example_str :: "pyval \<Rightarrow> string" where
  \<comment> \<open>Python's \<^verbatim>\<open>str\<close> on the values of the example: a string is itself\<close>
  "example_str (PStr s) = s"
| "example_str PNone = ''None''"
| "example_str _ = ''?''"

definition example_csv_cell :: "(string \<times> pyval) list" where
  "example_csv_cell =
     [(''address'', PStr ''B2''), (''row'', PNum 2), (''column'', PNum 2),
      (''column_letter'', PStr ''B''), (''value'', PStr ''Red''), (''formula'', PNone),
      (''display_text'', PNone),
      (''format'', PDict [(''number_format'', PStr ''General''), (''font_name'', PStr ''Calibri''),
                          (''merged'', PBool False), (''merge_area'', PNone)]),
      (''hyperlink'', PNone), (''note'', PNone),
      (''data_validation'', PDict [(''type_name'', PStr ''list''),
                                   (''formula1'', PStr (quoted ''Red,Green'')),
                                   (''formula2'', PNone),
                                   (''list_items'', PList [PStr ''Red'', PStr ''Green''])])]"

section \<open>Properties of the column letters\<close>

lemmas column_to_letter_loop_unfold = column_to_letter_loop.simps

declare column_to_letter_loop.simps [simp del]

lemma letter_fold_shift:
  "foldl (\<lambda>acc c. acc * 26 + letter_value c) a s
     = a * 26 ^ length s + foldl (\<lambda>acc c. acc * 26 + letter_value c) 0 s"
proof (induction s arbitrary: a)
  case Nil
  show ?case by simp
next
  case (Cons c s)
  have "foldl (\<lambda>acc c. acc * 26 + letter_value c) a (c # s)
          = foldl (\<lambda>acc c. acc * 26 + letter_value c) (a * 26 + letter_value c) s"
    by simp
  also have "\<dots> = (a * 26 + letter_value c) * 26 ^ length s
                    + foldl (\<lambda>acc c. acc * 26 + letter_value c) 0 s"
    by (rule Cons.IH)
  finally have l: "foldl (\<lambda>acc c. acc * 26 + letter_value c) a (c # s)
          = (a * 26 + letter_value c) * 26 ^ length s
              + foldl (\<lambda>acc c. acc * 26 + letter_value c) 0 s" .
  have "foldl (\<lambda>acc c. acc * 26 + letter_value c) 0 (c # s)
          = foldl (\<lambda>acc c. acc * 26 + letter_value c) (letter_value c) s"
    by simp
  also have "\<dots> = letter_value c * 26 ^ length s
                    + foldl (\<lambda>acc c. acc * 26 + letter_value c) 0 s"
    by (rule Cons.IH)
  finally have r: "foldl (\<lambda>acc c. acc * 26 + letter_value c) 0 (c # s)
          = letter_value c * 26 ^ length s
              + foldl (\<lambda>acc c. acc * 26 + letter_value c) 0 s" .
  show ?case
    unfolding l r by (simp add: algebra_simps)
qed

lemma letter_to_column_Cons:
  "letter_to_column (c # s) = letter_value c * 26 ^ length s + letter_to_column s"
  unfolding letter_to_column_def
  using letter_fold_shift [of "letter_value c" s] by simp

lemma letter_value_digit:
  assumes "0 \<le> r" "r < 26"
  shows "letter_value (char_of (65 + r :: int)) = r + 1"
proof -
  have "of_char (char_of (65 + r)) = (65 + r) mod 256"
    by (simp add: of_char_of)
  also have "\<dots> = 65 + r"
    using assms by simp
  finally show ?thesis
    by (simp add: letter_value_def)
qed

lemma letter_to_column_loop:
  "0 \<le> n \<Longrightarrow>
   letter_to_column (column_to_letter_loop n res)
     = n * 26 ^ length res + letter_to_column res"
proof (induction n res rule: column_to_letter_loop.induct)
  case (1 n res)
  show ?case
  proof (cases "n > 0")
    case False
    with "1.prems" have "n = 0" by simp
    then show ?thesis
      by (simp add: column_to_letter_loop_unfold [of 0 res])
  next
    case True
    define q where "q = (n - 1) div 26"
    define r where "r = (n - 1) mod 26"
    have q0: "0 \<le> q" using True by (simp add: q_def)
    have r0: "0 \<le> r" "r < 26" by (simp_all add: r_def)
    have n_eq: "n = 26 * q + r + 1"
      unfolding q_def r_def by simp
    have step: "column_to_letter_loop n res
                  = column_to_letter_loop q (char_of (65 + r) # res)"
      using True by (simp add: column_to_letter_loop_unfold [of n res] q_def r_def)
    have "letter_to_column (column_to_letter_loop q (char_of (65 + r) # res))
            = q * 26 ^ length (char_of (65 + r) # res)
                + letter_to_column (char_of (65 + r) # res)"
      using "1.IH" [OF True] q0 by (simp add: q_def r_def)
    also have "\<dots> = q * 26 ^ Suc (length res)
                      + ((r + 1) * 26 ^ length res + letter_to_column res)"
      by (simp add: letter_to_column_Cons letter_value_digit [OF r0])
    also have "\<dots> = n * 26 ^ length res + letter_to_column res"
      by (simp add: n_eq algebra_simps)
    finally show ?thesis
      by (simp add: step)
  qed
qed

lemma column_to_letter_loop_upper:
  "list_all is_upper_letter res \<Longrightarrow> list_all is_upper_letter (column_to_letter_loop n res)"
proof (induction n res rule: column_to_letter_loop.induct)
  case (1 n res)
  show ?case
  proof (cases "n > 0")
    case False
    then show ?thesis
      using "1.prems" by (simp add: column_to_letter_loop_unfold [of n res])
  next
    case True
    define r where "r = (n - 1) mod 26"
    have r0: "0 \<le> r" "r < 26" by (simp_all add: r_def)
    have "of_char (char_of (65 + r)) = (65 + r) mod 256"
      by (simp add: of_char_of)
    also have "\<dots> = 65 + r" using r0 by simp
    finally have oc: "of_char (char_of (65 + r)) = 65 + r" .
    have "int (of_char (char_of (65 + r))) = of_char (char_of (65 + r))"
      by (simp add: of_char_def)
    with oc have "int (of_char (char_of (65 + r))) = 65 + r" by simp
    with r0 have "is_upper_letter (char_of (65 + r))"
      by (simp add: is_upper_letter_def)
    with "1.prems" have "list_all is_upper_letter (char_of (65 + r) # res)"
      by simp
    from "1.IH" [OF True this [unfolded r_def]] show ?thesis
      using True by (simp add: column_to_letter_loop_unfold [of n res])
  qed
qed

text \<open>
  Claim C8. Column-to-letter conversion writes a positive column number as a base-26
  numeral without a zero digit, over the letters A to Z: 1 is "A", 26 is "Z", 27 is
  "AA". Reading the result back with the reference inverse returns the number, for every
  positive number and so for every n from 1 to 16384.
\<close>

theorem column_letter_round_trip:
  "column_to_letter 1 = ''A'' \<and> column_to_letter 26 = ''Z'' \<and> column_to_letter 27 = ''AA''
   \<and> (1 \<le> n \<longrightarrow> letter_to_column (column_to_letter n) = n
                \<and> list_all is_upper_letter (column_to_letter n)
                \<and> column_to_letter n \<noteq> [])
   \<and> (1 \<le> n \<and> n \<le> 16384 \<longrightarrow> letter_to_column (column_to_letter n) = n)"
proof -
  have a: "column_to_letter 1 = ''A''"
    by (simp add: column_to_letter_def column_to_letter_loop_unfold char_of_def)
  have b: "column_to_letter 26 = ''Z''"
    by (simp add: column_to_letter_def column_to_letter_loop_unfold char_of_def)
  have c: "column_to_letter 27 = ''AA''"
    by (simp add: column_to_letter_def column_to_letter_loop_unfold char_of_def)
  have rt: "letter_to_column (column_to_letter n) = n" if "1 \<le> n"
    using letter_to_column_loop [of n "[]"] that
    by (simp add: column_to_letter_def letter_to_column_def)
  have up: "list_all is_upper_letter (column_to_letter n)"
    using column_to_letter_loop_upper [of "[]" n] by (simp add: column_to_letter_def)
  have ne: "column_to_letter n \<noteq> []" if "1 \<le> n"
  proof
    assume "column_to_letter n = []"
    then have "letter_to_column (column_to_letter n) = 0"
      by (simp add: letter_to_column_def)
    with rt [OF that] that show False by simp
  qed
  from a b c rt up ne show ?thesis by blast
qed

theorem column_letter_round_trip_witness:
  "(1::int) \<le> 16384 \<and> column_to_letter 16384 = ''XFD''
   \<and> letter_to_column (column_to_letter 16384) = 16384"
proof -
  have "column_to_letter 16384 = ''XFD''"
    by (simp add: column_to_letter_def column_to_letter_loop_unfold char_of_def)
  with column_letter_round_trip [of 16384] show ?thesis by simp
qed

section \<open>The dependency scan finds the maximal tokens\<close>

lemma digit_not_upper: "is_digit c \<Longrightarrow> \<not> is_upper_letter c"
  by (simp add: is_digit_def is_upper_letter_def)

lemma cell_token_nonempty: "cell_token tok \<Longrightarrow> tok \<noteq> []"
  by (auto simp: cell_token_def)

lemma match_here_Some:
  assumes "match_here s = Some (tok, rest)"
  shows "\<exists>ls ds. tok = ls @ ds \<and> ls \<noteq> [] \<and> ds \<noteq> []
            \<and> list_all is_upper_letter ls \<and> list_all is_digit ds"
    and "s = tok @ rest"
    and "rest = [] \<or> \<not> is_digit (hd rest)"
proof -
  define ls where "ls = takeWhile is_upper_letter s"
  define r where "r = dropWhile is_upper_letter s"
  define ds where "ds = takeWhile is_digit r"
  from assms have ne: "ls \<noteq> []" "ds \<noteq> []"
    and tok: "tok = ls @ ds" and rest: "rest = dropWhile is_digit r"
    by (auto simp: match_here_def Let_def ls_def r_def ds_def split: if_splits)
  have "list_all is_upper_letter ls"
    unfolding ls_def list_all_iff by (auto dest: set_takeWhileD)
  moreover have "list_all is_digit ds"
    unfolding ds_def list_all_iff by (auto dest: set_takeWhileD)
  ultimately show "\<exists>ls ds. tok = ls @ ds \<and> ls \<noteq> [] \<and> ds \<noteq> []
            \<and> list_all is_upper_letter ls \<and> list_all is_digit ds"
    using ne tok by blast
  have "s = ls @ r" by (simp add: ls_def r_def)
  moreover have "r = ds @ rest" by (simp add: ds_def rest)
  ultimately show "s = tok @ rest" by (simp add: tok)
  show "rest = [] \<or> \<not> is_digit (hd rest)"
    unfolding rest using hd_dropWhile [of is_digit r] by blast
qed

lemma match_here_head:
  assumes "ls \<noteq> []" "ds \<noteq> []" "list_all is_upper_letter ls" "list_all is_digit ds"
    and "post = [] \<or> \<not> is_digit (hd post)"
  shows "match_here (ls @ ds @ post) = Some (ls @ ds, post)"
proof -
  from assms(2) obtain d ds' where ds: "ds = d # ds'" by (cases ds) auto
  with assms(4) have d: "is_digit d" by simp
  then have nd: "\<not> is_upper_letter d" by (rule digit_not_upper)
  have up: "\<And>x. x \<in> set ls \<Longrightarrow> is_upper_letter x"
    using assms(3) by (simp add: list_all_iff)
  have dg: "\<And>x. x \<in> set ds \<Longrightarrow> is_digit x"
    using assms(4) by (simp add: list_all_iff)
  have t1: "takeWhile is_upper_letter (ls @ ds @ post) = ls"
    using up nd by (simp add: takeWhile_append2 ds)
  have d1: "dropWhile is_upper_letter (ls @ ds @ post) = ds @ post"
    using up nd by (simp add: dropWhile_append2 ds)
  have pd: "takeWhile is_digit post = []" "dropWhile is_digit post = post"
    using assms(5) by (cases post; simp)+
  have t2: "takeWhile is_digit (ds @ post) = ds"
    using dg pd by (simp add: takeWhile_append2)
  have d2: "dropWhile is_digit (ds @ post) = post"
    using dg pd by (simp add: dropWhile_append2)
  show ?thesis
    using assms(1,2) by (simp add: match_here_def Let_def t1 d1 t2 d2)
qed

lemma maximal_token_step_none:
  assumes "match_here (c # t) = None"
  shows "maximal_token_of (c # t) tok \<longleftrightarrow> maximal_token_of t tok"
proof
  assume "maximal_token_of (c # t) tok"
  then obtain pre post where ct: "cell_token tok" and s: "c # t = pre @ tok @ post"
    and l: "pre = [] \<or> \<not> is_upper_letter (last pre)"
    and r: "post = [] \<or> \<not> is_digit (hd post)"
    by (auto simp: maximal_token_of_def)
  from ct obtain ls ds where tok: "tok = ls @ ds" "ls \<noteq> []" "ds \<noteq> []"
    "list_all is_upper_letter ls" "list_all is_digit ds"
    by (auto simp: cell_token_def)
  have "pre \<noteq> []"
  proof
    assume "pre = []"
    with s tok have "c # t = ls @ ds @ post" by simp
    with match_here_head [OF tok(2-5) r] assms show False by simp
  qed
  then obtain pre' where pre: "pre = c # pre'" using s by (cases pre) auto
  with s have "t = pre' @ tok @ post" by simp
  moreover have "pre' = [] \<or> \<not> is_upper_letter (last pre')"
    using l pre by (cases "pre' = []") auto
  ultimately show "maximal_token_of t tok"
    using ct r by (auto simp: maximal_token_of_def)
next
  assume "maximal_token_of t tok"
  then obtain pre post where ct: "cell_token tok" and s: "t = pre @ tok @ post"
    and l: "pre = [] \<or> \<not> is_upper_letter (last pre)"
    and r: "post = [] \<or> \<not> is_digit (hd post)"
    by (auto simp: maximal_token_of_def)
  from ct obtain ls ds where tok: "tok = ls @ ds" "ls \<noteq> []" "ds \<noteq> []"
    "list_all is_upper_letter ls" "list_all is_digit ds"
    by (auto simp: cell_token_def)
  have "\<not> is_upper_letter (last (c # pre))"
  proof (cases "pre = []")
    case False
    with l show ?thesis by simp
  next
    case True
    have "\<not> is_upper_letter c"
    proof
      assume "is_upper_letter c"
      with tok have "list_all is_upper_letter (c # ls)" by simp
      from match_here_head [OF _ tok(3) this tok(5) r]
      have "match_here ((c # ls) @ ds @ post) = Some ((c # ls) @ ds, post)" by simp
      with assms s True tok show False by simp
    qed
    with True show ?thesis by simp
  qed
  moreover have "c # t = (c # pre) @ tok @ post" using s by simp
  ultimately show "maximal_token_of (c # t) tok"
    using ct r unfolding maximal_token_of_def by blast
qed

lemma maximal_token_step_some:
  assumes m: "match_here s = Some (tok0, rest)"
  shows "maximal_token_of s tok \<longleftrightarrow> tok = tok0 \<or> maximal_token_of rest tok"
proof -
  from match_here_Some [OF m] obtain ls0 ds0 where tok0: "tok0 = ls0 @ ds0" "ls0 \<noteq> []"
    "ds0 \<noteq> []" "list_all is_upper_letter ls0" "list_all is_digit ds0"
    and s0: "s = tok0 @ rest" and r0: "rest = [] \<or> \<not> is_digit (hd rest)"
    by blast
  have ct0: "cell_token tok0"
    using tok0 unfolding cell_token_def by blast
  have last0: "\<not> is_upper_letter (last tok0)"
  proof -
    have "last tok0 = last ds0" using tok0 by simp
    moreover have "last ds0 \<in> set ds0" using tok0(3) by simp
    ultimately have "is_digit (last tok0)" using tok0(5) by (simp add: list_all_iff)
    then show ?thesis by (rule digit_not_upper)
  qed
  show ?thesis
  proof
    assume "maximal_token_of s tok"
    then obtain pre post where ct: "cell_token tok" and s: "s = pre @ tok @ post"
      and l: "pre = [] \<or> \<not> is_upper_letter (last pre)"
      and r: "post = [] \<or> \<not> is_digit (hd post)"
      by (auto simp: maximal_token_of_def)
    from ct obtain ls ds where tok: "tok = ls @ ds" "ls \<noteq> []" "ds \<noteq> []"
      "list_all is_upper_letter ls" "list_all is_digit ds"
      by (auto simp: cell_token_def)
    have hd_tok: "is_upper_letter (hd tok)"
      using tok by (cases ls) auto
    show "tok = tok0 \<or> maximal_token_of rest tok"
    proof (cases "pre = []")
      case True
      with s tok have "s = ls @ ds @ post" by simp
      with match_here_head [OF tok(2-5) r] m tok(1) show ?thesis by simp
    next
      case False
      from s0 s have "tok0 @ rest = pre @ (tok @ post)" by simp
      then obtain us where us: "(tok0 = pre @ us \<and> us @ rest = tok @ post)
          \<or> (tok0 @ us = pre \<and> rest = us @ tok @ post)"
        unfolding append_eq_append_conv2 by blast
      have "\<exists>vs. tok0 @ vs = pre \<and> rest = vs @ tok @ post"
      proof (cases "tok0 = pre @ us \<and> us @ rest = tok @ post")
        case False
        with us show ?thesis by blast
      next
        case True
        show ?thesis
        proof (cases "us = []")
          case True
          with \<open>tok0 = pre @ us \<and> us @ rest = tok @ post\<close> show ?thesis by simp
        next
          case usne: False
          from True have "hd (us @ rest) = hd (tok @ post)" by simp
          then have "hd us = hd tok"
            using usne tok(1,2) by simp
          with hd_tok have hu: "is_upper_letter (hd us)" by simp
          from True tok0(1) have "ls0 @ ds0 = pre @ us" by simp
          then obtain vs where vs: "(ls0 = pre @ vs \<and> vs @ ds0 = us)
              \<or> (ls0 @ vs = pre \<and> ds0 = vs @ us)"
            unfolding append_eq_append_conv2 by blast
          then show ?thesis
          proof
            assume "ls0 = pre @ vs \<and> vs @ ds0 = us"
            then have "last pre \<in> set ls0" using False by simp
            with tok0(4) have "is_upper_letter (last pre)" by (simp add: list_all_iff)
            with l False show ?thesis by simp
          next
            assume "ls0 @ vs = pre \<and> ds0 = vs @ us"
            then have "hd us \<in> set ds0" using usne by simp
            with tok0(5) have "is_digit (hd us)" by (simp add: list_all_iff)
            with hu digit_not_upper show ?thesis by blast
          qed
        qed
      qed
      then obtain vs where vs: "tok0 @ vs = pre" "rest = vs @ tok @ post" by blast
      have "vs = [] \<or> \<not> is_upper_letter (last vs)"
        using l False vs(1) by (cases "vs = []") auto
      with vs(2) ct r have "maximal_token_of rest tok"
        unfolding maximal_token_of_def by blast
      then show ?thesis ..
    qed
  next
    assume "tok = tok0 \<or> maximal_token_of rest tok"
    then show "maximal_token_of s tok"
    proof
      assume "tok = tok0"
      moreover have "s = [] @ tok0 @ rest" using s0 by simp
      ultimately show ?thesis
        using ct0 r0 unfolding maximal_token_of_def by blast
    next
      assume "maximal_token_of rest tok"
      then obtain pre post where ct: "cell_token tok" and s: "rest = pre @ tok @ post"
        and l: "pre = [] \<or> \<not> is_upper_letter (last pre)"
        and r: "post = [] \<or> \<not> is_digit (hd post)"
        by (auto simp: maximal_token_of_def)
      have "s = (tok0 @ pre) @ tok @ post" using s0 s by simp
      moreover have "\<not> is_upper_letter (last (tok0 @ pre))"
        using l last0 by (cases "pre = []") auto
      ultimately show ?thesis
        using ct r unfolding maximal_token_of_def by blast
    qed
  qed
qed

lemma findall_maximal_tokens:
  "tok \<in> set (findall s) \<longleftrightarrow> maximal_token_of s tok"
proof (induction s rule: findall.induct)
  case (1 s)
  show ?case
  proof (cases "match_here s")
    case None
    show ?thesis
    proof (cases s)
      case Nil
      have "\<not> maximal_token_of [] tok"
        by (auto simp: maximal_token_of_def dest: cell_token_nonempty)
      with None Nil show ?thesis by simp
    next
      case (Cons c t)
      from "1.IH"(1) [OF None Cons] maximal_token_step_none [of c t tok] None Cons
      show ?thesis by simp
    qed
  next
    case (Some p)
    obtain tok0 rest where p: "p = (tok0, rest)" by (cases p)
    from "1.IH"(2) [OF Some p [symmetric]] maximal_token_step_some [of s tok0 rest tok]
      Some p
    show ?thesis by auto
  qed
qed


lemma sorted_parse_formula_dependencies:
  "sorted (parse_formula_dependencies f) \<and> distinct (parse_formula_dependencies f)"
  by (simp add: parse_formula_dependencies_def)

text \<open>
  Claim C5, as the code has it. The formula is put in upper case before the scan, so the
  tokens are those of the upper-cased formula: the result holds exactly the maximal
  tokens "capitals, then digits" of \<open>upper f\<close>, without duplicates and in ascending
  lexical order. For \<^verbatim>\<open>=SUM(A1:B2)+C3\<close> that is A1, B2, C3.
\<close>

theorem formula_dependencies_maximal_tokens:
  "sorted (parse_formula_dependencies f) \<and> distinct (parse_formula_dependencies f)
   \<and> (tok \<in> set (parse_formula_dependencies f) \<longleftrightarrow> maximal_token_of (upper f) tok)
   \<and> parse_formula_dependencies ''=SUM(A1:B2)+C3'' = [''A1'', ''B2'', ''C3'']"
proof -
  have "tok \<in> set (parse_formula_dependencies f) \<longleftrightarrow> maximal_token_of (upper f) tok"
    by (simp add: parse_formula_dependencies_def findall_maximal_tokens del: findall.simps)
  moreover have "parse_formula_dependencies ''=SUM(A1:B2)+C3'' = [''A1'', ''B2'', ''C3'']"
    by code_simp
  ultimately show ?thesis
    using sorted_parse_formula_dependencies [of f] by blast
qed

theorem formula_dependencies_maximal_tokens_witness:
  "maximal_token_of (upper ''=sum(a1:B2)+C3+a1'') ''A1''
   \<and> \<not> maximal_token_of (upper ''=sum(a1:B2)+C3+a1'') ''SUM''
   \<and> parse_formula_dependencies ''=sum(a1:B2)+C3+a1'' = [''A1'', ''B2'', ''C3'']"
proof -
  have v: "parse_formula_dependencies ''=sum(a1:B2)+C3+a1'' = [''A1'', ''B2'', ''C3'']"
    by code_simp
  from formula_dependencies_maximal_tokens [of "''=sum(a1:B2)+C3+a1''" "''A1''"]
  have a: "maximal_token_of (upper ''=sum(a1:B2)+C3+a1'') ''A1''"
    unfolding v by simp
  from formula_dependencies_maximal_tokens [of "''=sum(a1:B2)+C3+a1''" "''SUM''"]
  have b: "\<not> maximal_token_of (upper ''=sum(a1:B2)+C3+a1'') ''SUM''"
    unfolding v by simp
  from a b v show ?thesis by blast
qed

text \<open>
  The sheet name of a sheet-qualified reference is scanned like the rest of the formula:
  \<^verbatim>\<open>Sheet1!A1\<close> is \<^verbatim>\<open>SHEET1!A1\<close> in upper case, and both \<^verbatim>\<open>SHEET1\<close> and \<^verbatim>\<open>A1\<close> are
  tokens.
\<close>

theorem formula_dependencies_sheet_name_counterexample:
  "parse_formula_dependencies ''Sheet1!A1'' = [''A1'', ''SHEET1'']
   \<and> parse_formula_dependencies ''Sheet1!A1'' \<noteq> [''A1'']"
  by code_simp

section \<open>Resolving validation lists\<close>

lemma split_on_nonempty: "split_on c s \<noteq> []"
  by (induction s) (auto split: list.splits)

lemma split_on_pieces: "p \<in> set (split_on c s) \<Longrightarrow> c \<notin> set p"
proof (induction s arbitrary: p)
  case Nil
  then show ?case by simp
next
  case (Cons x s)
  show ?case
  proof (cases "x = c")
    case True
    with Cons show ?thesis by auto
  next
    case False
    obtain h t where ht: "split_on c s = h # t"
      using split_on_nonempty [of c s] by (cases "split_on c s") auto
    with False Cons.prems have "p = x # h \<or> p \<in> set t" by simp
    then show ?thesis
    proof
      assume "p = x # h"
      moreover have "c \<notin> set h" using Cons.IH [of h] ht by simp
      ultimately show ?thesis using False by auto
    next
      assume "p \<in> set t"
      then show ?thesis using Cons.IH [of p] ht by simp
    qed
  qed
qed

lemma join_Cons: "ys \<noteq> [] \<Longrightarrow> join sep (x # ys) = x @ sep @ join sep ys"
  by (cases ys) auto

lemma join_split_on: "join [c] (split_on c s) = s"
proof (induction s)
  case Nil
  show ?case by simp
next
  case (Cons x s)
  obtain h t where ht: "split_on c s = h # t"
    using split_on_nonempty [of c s] by (cases "split_on c s") auto
  show ?case
  proof (cases "x = c")
    case True
    then show ?thesis
      using Cons.IH by (simp add: join_Cons split_on_nonempty)
  next
    case False
    have "join [c] ((x # h) # t) = x # join [c] (h # t)"
      by (cases t) auto
    with False ht Cons.IH show ?thesis by simp
  qed
qed

lemma resolve_literal:
  assumes "s \<noteq> []" "is_literal_list (normalize_source s)"
  shows "resolve_validation_list_items cell_range wb ws (Some s)
           = Some (literal_items (normalize_source s))"
    and "resolve_validation_list_items_xl xwb cur (Some s)
           = Some (literal_items (normalize_source s))"
  using assms
  by (simp_all add: resolve_validation_list_items_def resolve_validation_list_items_xl_def Let_def)

text \<open>
  Claim C3, as the code has it. The literal test is made after the wrapping quotes are cut
  off, and it asks for a comma: a source whose normalised text contains a comma and none
  of \<^verbatim>\<open>!\<close>, \<^verbatim>\<open>:\<close>, \<^verbatim>\<open>[\<close> resolves, in both extractors, to the pieces between the commas,
  in order, each trimmed of surrounding whitespace. The pieces joined by commas give the
  text back, and no piece contains a comma.
\<close>

theorem literal_source_items:
  assumes "s \<noteq> []" and "f = normalize_source s"
    and "CHR '','' \<in> set f" and "CHR ''!'' \<notin> set f" and "CHR '':'' \<notin> set f"
    and "CHR ''['' \<notin> set f"
  shows "resolve_validation_list_items cell_range wb ws (Some s)
           = Some (map (\<lambda>item. PStr (strip item)) (split_on CHR '','' f))
         \<and> resolve_validation_list_items_xl xwb cur (Some s)
           = Some (map (\<lambda>item. PStr (strip item)) (split_on CHR '','' f))
         \<and> join '','' (split_on CHR '','' f) = f
         \<and> (\<forall>item \<in> set (split_on CHR '','' f). CHR '','' \<notin> set item)"
proof -
  have lit: "is_literal_list (normalize_source s)"
    using assms(2-6) by (simp add: is_literal_list_def has_def)
  show ?thesis
    using resolve_literal [OF assms(1) lit] assms(2) join_split_on [of "CHR '',''" f]
      split_on_pieces [of _ "CHR '',''" f]
    by (auto simp: literal_items_def)
qed

theorem literal_source_items_witness:
  "quoted ''X, Y , Z'' \<noteq> [] \<and> CHR '','' \<in> set ''X, Y , Z'' \<and> CHR ''!'' \<notin> set ''X, Y , Z''
   \<and> CHR '':'' \<notin> set ''X, Y , Z'' \<and> CHR ''['' \<notin> set ''X, Y , Z''
   \<and> resolve_validation_list_items example_cell_range example_workbook example_worksheet
        (Some (quoted ''X, Y , Z'')) = Some [PStr ''X'', PStr ''Y'', PStr ''Z'']
   \<and> resolve_validation_list_items_xl example_xl_workbook example_xl_sheet
        (Some (quoted ''X, Y , Z'')) = Some [PStr ''X'', PStr ''Y'', PStr ''Z'']"
proof -
  have n: "''X, Y , Z'' = normalize_source (quoted ''X, Y , Z'')"
    by code_simp
  have q: "quoted ''X, Y , Z'' \<noteq> []"
    by (simp add: quoted_def)
  have c: "CHR '','' \<in> set ''X, Y , Z''" "CHR ''!'' \<notin> set ''X, Y , Z''"
    "CHR '':'' \<notin> set ''X, Y , Z''" "CHR ''['' \<notin> set ''X, Y , Z''"
    by simp_all
  have v: "map (\<lambda>item. PStr (strip item)) (split_on CHR '','' ''X, Y , Z'')
             = [PStr ''X'', PStr ''Y'', PStr ''Z'']"
    by code_simp
  from literal_source_items [OF q n c, of example_cell_range example_workbook
      example_worksheet example_xl_workbook example_xl_sheet]
  show ?thesis
    unfolding v using q c by blast
qed

text \<open>
  A source in quotes without a comma is not a literal list: \<^verbatim>\<open>"Red"\<close> loses its quotes,
  fails the literal test for want of a comma, and ends in the named-range lookup, which
  finds no name \<^verbatim>\<open>Red\<close> in the example workbooks.
\<close>

theorem quoted_single_item_counterexample:
  "resolve_validation_list_items example_cell_range example_workbook example_worksheet
     (Some (quoted ''Red'')) = None
   \<and> resolve_validation_list_items_xl example_xl_workbook example_xl_sheet
     (Some (quoted ''Red'')) = None"
  by code_simp








lemma flatten_to_list_grid:
  "flatten_to_list (PList (map PList rows)) = filter (\<lambda>v. v \<noteq> PNone) (concat rows)"
  by (induction rows) (simp_all add: flatten_to_list_def flatten_row_def)

lemma flatten_to_list_single:
  "is_scalar v \<Longrightarrow> flatten_to_list v = (if v \<noteq> PNone then [v] else [])"
  by (cases v) (simp_all add: flatten_to_list_def)

lemma range_reference_values_xl:
  assumes "s \<noteq> []" "f = normalize_source s" "\<not> is_literal_list f"
    "CHR ''['' \<notin> set f \<or> CHR '']'' \<notin> set f" "CHR ''!'' \<in> set f"
    "sheet_by_name xwb (strip_char CHR 0x27 (strip (fst (split_once CHR ''!'' f)))) = Some sh"
    "range_value sh (snd (split_once CHR ''!'' f)) = Some v"
  shows "resolve_validation_list_items_xl xwb cur (Some s) = Some (flatten_to_list v)"
  using assms
  by (auto simp: resolve_validation_list_items_xl_def Let_def has_def after_table_column_xl_def
      values_from_range_on_sheet_def)









lemma named_range_loop_skip:
  assumes "\<forall>p \<in> set pre. \<forall>m. fst p = Some m \<longrightarrow> \<not> name_matches m target"
  shows "named_range_loop xwb cur target (pre @ rest) = named_range_loop xwb cur target rest"
  using assms
proof (induction pre)
  case Nil
  show ?case by simp
next
  case (Cons p pre)
  obtain n r where p: "p = (n, r)" by (cases p)
  from Cons.prems have "\<forall>q \<in> set pre. \<forall>m. fst q = Some m \<longrightarrow> \<not> name_matches m target"
    by simp
  from Cons.IH [OF this] Cons.prems p show ?case
    by (cases n) simp_all
qed


lemma named_range_loop_sheet_range:
  assumes "n \<noteq> []" "name_matches n target" "r \<noteq> []"
    "r' = (if startswith r CHR ''='' then tl r else r)"
    "CHR ''!'' \<in> set r'"
    "strip_char CHR 0x27 (strip (fst (split_once CHR ''!'' r'))) \<noteq> []"
    "sheet_by_name xwb (strip_char CHR 0x27 (strip (fst (split_once CHR ''!'' r')))) = Some sheet"
    "range_value sheet (snd (split_once CHR ''!'' r')) = Some vals"
  shows "named_range_loop xwb cur target ((Some n, Some r) # post) = Some (flatten_to_list vals)"
  using assms by (simp add: Let_def has_def values_from_range_on_sheet_def)

lemma named_range_loop_current_sheet_range:
  assumes "n \<noteq> []" "name_matches n target" "r \<noteq> []"
    "r' = (if startswith r CHR ''='' then tl r else r)"
    "CHR ''!'' \<notin> set r'" "CHR '':'' \<in> set r'"
    "range_value cur r' = Some vals"
  shows "named_range_loop xwb cur target ((Some n, Some r) # post) = Some (flatten_to_list vals)"
  using assms by (simp add: Let_def has_def values_from_range_on_sheet_def)

lemma resolve_reaches_named_range:
  assumes "s \<noteq> []" "f = normalize_source s"
    "CHR ''!'' \<notin> set f" "CHR '':'' \<notin> set f"
    "CHR '','' \<notin> set f \<or> CHR ''['' \<in> set f"
    "CHR ''['' \<notin> set f \<or> CHR '']'' \<notin> set f"
    "try_resolve_named_range xwb cur f = Some vals"
  shows "resolve_validation_list_items_xl xwb cur (Some s) = Some vals"
  using assms
  by (auto simp: resolve_validation_list_items_xl_def Let_def is_literal_list_def has_def
      after_table_column_xl_def)

text \<open>
  Claim C4, for the live-application extractor. A source that is no literal list, has no
  pair of brackets and neither \<^verbatim>\<open>!\<close> nor \<^verbatim>\<open>:\<close> reaches the named-range lookup. The
  lookup compares the names with the source (trimmed of surrounding whitespace and
  apostrophes) in lower case and without spaces, and takes the first name that matches:
  when that name refers to a range, on a named sheet or on the current sheet, the result
  is the list of the range's values.
\<close>

theorem named_range_case_insensitive:
  assumes "s \<noteq> []" and "f = normalize_source s"
    and "CHR ''!'' \<notin> set f" and "CHR '':'' \<notin> set f"
    and "CHR '','' \<notin> set f \<or> CHR ''['' \<in> set f"
    and "CHR ''['' \<notin> set f \<or> CHR '']'' \<notin> set f"
    and "target = strip_char CHR 0x27 (strip f)"
    and "names xwb = pre @ (Some n, Some r) # post"
    and "\<forall>p \<in> set pre. \<forall>m. fst p = Some m
            \<longrightarrow> lower (remove_spaces m) \<noteq> lower (remove_spaces target)"
    and "n \<noteq> []" and "lower (remove_spaces n) = lower (remove_spaces target)"
    and "r \<noteq> []" and "r' = (if startswith r CHR ''='' then tl r else r)"
  shows "(CHR ''!'' \<in> set r'
            \<and> sn = strip_char CHR 0x27 (strip (fst (split_once CHR ''!'' r'))) \<and> sn \<noteq> []
            \<and> sheet_by_name xwb sn = Some sheet
            \<and> range_value sheet (snd (split_once CHR ''!'' r')) = Some vals
          \<longrightarrow> try_resolve_named_range xwb cur f = Some (flatten_to_list vals)
              \<and> resolve_validation_list_items_xl xwb cur (Some s) = Some (flatten_to_list vals))
       \<and> (CHR ''!'' \<notin> set r' \<and> CHR '':'' \<in> set r' \<and> range_value cur r' = Some vals
          \<longrightarrow> try_resolve_named_range xwb cur f = Some (flatten_to_list vals)
              \<and> resolve_validation_list_items_xl xwb cur (Some s) = Some (flatten_to_list vals))"
proof -
  have nm: "name_matches n target"
    using assms(11) by (simp add: name_matches_def)
  have "\<forall>p \<in> set pre. \<forall>m. fst p = Some m \<longrightarrow> \<not> name_matches m target"
    using assms(9) by (simp add: name_matches_def)
  then have skip: "try_resolve_named_range xwb cur f
                     = named_range_loop xwb cur target ((Some n, Some r) # post)"
    unfolding try_resolve_named_range_def assms(8) assms(7) [symmetric]
    by (rule named_range_loop_skip)
  have a: "try_resolve_named_range xwb cur f = Some (flatten_to_list vals)"
    if "CHR ''!'' \<in> set r'"
      "sn = strip_char CHR 0x27 (strip (fst (split_once CHR ''!'' r')))" "sn \<noteq> []"
      "sheet_by_name xwb sn = Some sheet"
      "range_value sheet (snd (split_once CHR ''!'' r')) = Some vals"
    unfolding skip
    using named_range_loop_sheet_range [OF assms(10) nm assms(12,13) that(1)] that(2-5)
    by simp
  have b: "try_resolve_named_range xwb cur f = Some (flatten_to_list vals)"
    if "CHR ''!'' \<notin> set r'" "CHR '':'' \<in> set r'" "range_value cur r' = Some vals"
    unfolding skip
    by (rule named_range_loop_current_sheet_range [OF assms(10) nm assms(12,13) that])
  note reach = resolve_reaches_named_range [OF assms(1-6)]
  show ?thesis
    using a b reach by blast
qed

theorem named_range_case_insensitive_witness:
  "''my range'' \<noteq> [] \<and> normalize_source ''my range'' = ''my range''
   \<and> lower (remove_spaces ''MyRange'') = lower (remove_spaces ''my range'')
   \<and> names example_xl_workbook = [(Some ''MyRange'', Some ''=Sheet1!$A$2:$A$4'')]
   \<and> try_resolve_named_range example_xl_workbook example_xl_sheet ''my range''
        = Some [PNum 10, PNum 30]
   \<and> resolve_validation_list_items_xl example_xl_workbook example_xl_sheet (Some ''my range'')
        = Some [PNum 10, PNum 30]"
proof -
  have ne: "''my range'' \<noteq> []" by simp
  have n: "''my range'' = normalize_source ''my range''" by code_simp
  have c: "CHR ''!'' \<notin> set ''my range''" "CHR '':'' \<notin> set ''my range''"
    "CHR '','' \<notin> set ''my range'' \<or> CHR ''['' \<in> set ''my range''"
    "CHR ''['' \<notin> set ''my range'' \<or> CHR '']'' \<notin> set ''my range''"
    by simp_all
  have t: "''my range'' = strip_char CHR 0x27 (strip ''my range'')" by code_simp
  have nmx: "names example_xl_workbook = [] @ (Some ''MyRange'', Some ''=Sheet1!$A$2:$A$4'') # []"
    by (simp add: example_xl_workbook_def)
  have pre: "\<forall>p \<in> set []. \<forall>m. fst p = Some m
            \<longrightarrow> lower (remove_spaces m) \<noteq> lower (remove_spaces ''my range'')"
    by simp
  have m: "lower (remove_spaces ''MyRange'') = lower (remove_spaces ''my range'')"
    by code_simp
  have r: "''=Sheet1!$A$2:$A$4'' \<noteq> []" "''MyRange'' \<noteq> []" by simp_all
  have r': "''Sheet1!$A$2:$A$4''
              = (if startswith ''=Sheet1!$A$2:$A$4'' CHR ''='' then tl ''=Sheet1!$A$2:$A$4''
                 else ''=Sheet1!$A$2:$A$4'')"
    by code_simp
  have sn: "''Sheet1'' = strip_char CHR 0x27 (strip (fst (split_once CHR ''!'' ''Sheet1!$A$2:$A$4'')))"
    by code_simp
  have ad: "snd (split_once CHR ''!'' ''Sheet1!$A$2:$A$4'') = ''$A$2:$A$4''"
    by code_simp
  have sb: "sheet_by_name example_xl_workbook ''Sheet1'' = Some example_xl_sheet"
    by (simp add: example_xl_workbook_def)
  have rv: "range_value example_xl_sheet ''$A$2:$A$4'' = Some (PList [PNum 10, PNone, PNum 30])"
    by (simp add: example_xl_sheet_def)
  have fl: "flatten_to_list (PList [PNum 10, PNone, PNum 30]) = [PNum 10, PNum 30]"
    by code_simp
  note th = named_range_case_insensitive [OF ne n c t nmx pre r(2) m r(1) r',
      where sn = "''Sheet1''" and sheet = example_xl_sheet
        and vals = "PList [PNum 10, PNone, PNum 30]" and cur = example_xl_sheet]
  have "try_resolve_named_range example_xl_workbook example_xl_sheet ''my range''
          = Some (flatten_to_list (PList [PNum 10, PNone, PNum 30]))
        \<and> resolve_validation_list_items_xl example_xl_workbook example_xl_sheet (Some ''my range'')
          = Some (flatten_to_list (PList [PNum 10, PNone, PNum 30]))"
    by (rule th [THEN conjunct1, THEN mp]) (simp add: sn [symmetric] ad sb rv)
  with ne n m nmx show ?thesis
    unfolding fl by simp
qed

text \<open>
  The file-parsing extractor looks the source up as a key of the dictionary of defined
  names: \<^verbatim>\<open>myrange\<close> does not find the name \<^verbatim>\<open>MyRange\<close>, although the two are equal
  in lower case without spaces; \<^verbatim>\<open>MyRange\<close> does.
\<close>

theorem named_range_exact_key_counterexample:
  "lower (remove_spaces ''MyRange'') = lower (remove_spaces ''myrange'')
   \<and> map_of (defined_names example_workbook) ''MyRange'' = Some [(''Sheet1'', ''$A$1:$A$3'')]
   \<and> resolve_validation_list_items example_cell_range example_workbook example_worksheet
        (Some ''myrange'') = None
   \<and> resolve_validation_list_items example_cell_range example_workbook example_worksheet
        (Some ''MyRange'') = Some [PNum 10, PNone, PNum 30]"
  by code_simp

text \<open>
  Claim C2 at the range A1:A3 of the example worksheet, which holds 10, an empty cell and
  30. The file-parsing extractor collects the values into one flat list before it calls
  \<^verbatim>\<open>_flatten_values\<close>, which filters \<^verbatim>\<open>None\<close> only inside nested lists: the empty cell
  stays in the result. The live-application extractor's \<^verbatim>\<open>_flatten_to_list\<close> drops it.
\<close>

theorem range_values_keep_none:
  "iter_rows example_worksheet 1 3 1 1 = [ [PNum 10], [PNone], [PNum 30] ]
   \<and> values_from_range example_cell_range example_worksheet ''$A$1:$A$3''
        = Some [PNum 10, PNone, PNum 30]
   \<and> resolve_validation_list_items example_cell_range example_workbook example_worksheet
        (Some ''=Sheet1!$A$1:$A$3'') = Some [PNum 10, PNone, PNum 30]
   \<and> flatten_to_list (PList [PNum 10, PNone, PNum 30]) = [PNum 10, PNum 30]"
  by code_simp
section \<open>Cell records carry a value or a formula\<close>

lemma formula_of_value_Some:
  "formula_of_value v = Some t \<longleftrightarrow> v = PStr t \<and> startswith t CHR ''=''"
  by (cases v) (auto simp: formula_of_value_def)

lemma formula_of_value_None:
  "formula_of_value v = None \<longleftrightarrow> (\<forall>t. v = PStr t \<longrightarrow> \<not> startswith t CHR ''='')"
  by (cases v) (auto simp: formula_of_value_def)

text \<open>
  Claim C6, as the code has it. In the file-parsing extractor a cell record carries the
  raw value or the formula text, never both: a cell whose value is a string that starts
  with \<^verbatim>\<open>=\<close> has that string as \<^verbatim>\<open>formula\<close> and \<^verbatim>\<open>None\<close> as \<^verbatim>\<open>value\<close>; any other
  cell has \<^verbatim>\<open>None\<close> as \<^verbatim>\<open>formula\<close> and its value as \<^verbatim>\<open>value\<close>. In the live-application
  extractor the two entries are filled independently of each other: \<^verbatim>\<open>value\<close> is what
  the cell's value reads, \<^verbatim>\<open>formula\<close> the cell's formula text unless that is empty.
\<close>

theorem cell_record_value_or_formula:
  "(extract_cell_full_details get_column_letter cell = Some r \<longrightarrow>
      (\<exists>d. r = PDict d
         \<and> (dict_get d ''value'' = PNone \<or> dict_get d ''formula'' = PNone)
         \<and> (\<forall>t. cell_val cell = PStr t \<and> startswith t CHR ''=''
                \<longrightarrow> dict_get d ''formula'' = PStr t \<and> dict_get d ''value'' = PNone)
         \<and> ((\<forall>t. cell_val cell = PStr t \<longrightarrow> \<not> startswith t CHR ''='')
                \<longrightarrow> dict_get d ''formula'' = PNone \<and> dict_get d ''value'' = cell_val cell)))
   \<and> (\<exists>d. extract_cell_full_details_xl xcell = PDict d
         \<and> dict_get d ''value'' = (case xl_value xcell of None \<Rightarrow> PNone | Some v \<Rightarrow> v)
         \<and> dict_get d ''formula''
             = (case xl_formula xcell of
                  None \<Rightarrow> PNone
                | Some t \<Rightarrow> if t = [] then PNone else PStr t))"
proof -
  have opx: "\<exists>d. r = PDict d
         \<and> (dict_get d ''value'' = PNone \<or> dict_get d ''formula'' = PNone)
         \<and> (\<forall>t. cell_val cell = PStr t \<and> startswith t CHR ''=''
                \<longrightarrow> dict_get d ''formula'' = PStr t \<and> dict_get d ''value'' = PNone)
         \<and> ((\<forall>t. cell_val cell = PStr t \<longrightarrow> \<not> startswith t CHR ''='')
                \<longrightarrow> dict_get d ''formula'' = PNone \<and> dict_get d ''value'' = cell_val cell)"
    if h: "extract_cell_full_details get_column_letter cell = Some r"
  proof (cases "formula_of_value (cell_val cell)")
    case None
    then have no: "\<forall>t. cell_val cell = PStr t \<longrightarrow> \<not> startswith t CHR ''=''"
      by (simp add: formula_of_value_None)
    from h None obtain letter where
      "r = PDict
               [(''address'', PStr (coordinate cell)),
                (''row'', PNum (cell_row cell)),
                (''column'', PNum (cell_column cell)),
                (''column_letter'', PStr letter),
                (''value'', cell_val cell),
                (''formula'', PNone),
                (''display_text'', PNone),
                (''format'', cell_format cell),
                (''hyperlink'', cell_hyperlink cell),
                (''note'', cell_note cell),
                (''data_validation'', cell_validation cell)]"
      by (auto simp: extract_cell_full_details_def Let_def split: option.splits)
    with no show ?thesis
      by (auto simp: dict_get_def)
  next
    case (Some t)
    then have yes: "cell_val cell = PStr t" "startswith t CHR ''=''"
      by (simp_all add: formula_of_value_Some)
    from h Some obtain letter where
      "r = PDict
               [(''address'', PStr (coordinate cell)),
                (''row'', PNum (cell_row cell)),
                (''column'', PNum (cell_column cell)),
                (''column_letter'', PStr letter),
                (''value'', PNone),
                (''formula'', PStr t),
                (''display_text'', PNone),
                (''format'', cell_format cell),
                (''hyperlink'', cell_hyperlink cell),
                (''note'', cell_note cell),
                (''data_validation'', cell_validation cell)]"
      by (auto simp: extract_cell_full_details_def Let_def split: option.splits)
    with yes show ?thesis
      by (auto simp: dict_get_def)
  qed
  have xl: "\<exists>d. extract_cell_full_details_xl xcell = PDict d
         \<and> dict_get d ''value'' = (case xl_value xcell of None \<Rightarrow> PNone | Some v \<Rightarrow> v)
         \<and> dict_get d ''formula''
             = (case xl_formula xcell of
                  None \<Rightarrow> PNone
                | Some t \<Rightarrow> if t = [] then PNone else PStr t)"
    by (auto simp: extract_cell_full_details_xl_def Let_def dict_get_def split: option.splits)
  from opx xl show ?thesis by blast
qed

theorem cell_record_value_or_formula_witness:
  "extract_cell_full_details example_column_letter (example_opx_cell (PStr ''=A1+B1''))
     = Some (PDict
         [(''address'', PStr ''C1''), (''row'', PNum 1), (''column'', PNum 3),
          (''column_letter'', PStr ''C''), (''value'', PNone),
          (''formula'', PStr ''=A1+B1''), (''display_text'', PNone),
          (''format'', PDict []), (''hyperlink'', PNone), (''note'', PNone),
          (''data_validation'', PNone)])
   \<and> cell_val (example_opx_cell (PStr ''=A1+B1'')) = PStr ''=A1+B1''
   \<and> startswith ''=A1+B1'' CHR ''=''
   \<and> dict_get
         [(''address'', PStr ''C1''), (''row'', PNum 1), (''column'', PNum 3),
          (''column_letter'', PStr ''C''), (''value'', PNone),
          (''formula'', PStr ''=A1+B1''), (''display_text'', PNone),
          (''format'', PDict []), (''hyperlink'', PNone), (''note'', PNone),
          (''data_validation'', PNone)] ''formula'' = PStr ''=A1+B1''
   \<and> dict_get
         [(''address'', PStr ''C1''), (''row'', PNum 1), (''column'', PNum 3),
          (''column_letter'', PStr ''C''), (''value'', PNone),
          (''formula'', PStr ''=A1+B1''), (''display_text'', PNone),
          (''format'', PDict []), (''hyperlink'', PNone), (''note'', PNone),
          (''data_validation'', PNone)] ''value'' = PNone"
proof -
  define d where "d = [(''address'', PStr ''C1''), (''row'', PNum 1), (''column'', PNum 3),
          (''column_letter'', PStr ''C''), (''value'', PNone),
          (''formula'', PStr ''=A1+B1''), (''display_text'', PNone),
          (''format'', PDict []), (''hyperlink'', PNone), (''note'', PNone),
          (''data_validation'', PNone)]"
  have s: "extract_cell_full_details example_column_letter (example_opx_cell (PStr ''=A1+B1''))
             = Some (PDict d)"
    unfolding d_def by code_simp
  have v: "cell_val (example_opx_cell (PStr ''=A1+B1'')) = PStr ''=A1+B1''"
    "startswith ''=A1+B1'' CHR ''=''"
    by (simp_all add: example_opx_cell_def startswith_def)
  from cell_record_value_or_formula
    [of example_column_letter "example_opx_cell (PStr ''=A1+B1'')" "PDict d"] s v
  have "dict_get d ''formula'' = PStr ''=A1+B1'' \<and> dict_get d ''value'' = PNone"
    by auto
  with s v show ?thesis
    unfolding d_def by blast
qed

text \<open>
  In the live-application extractor a formula cell has both entries: the cell C1 with the
  formula \<^verbatim>\<open>=A1+B1\<close> and the calculated value 3 gives a record with \<^verbatim>\<open>value\<close> 3 and
  \<^verbatim>\<open>formula\<close> \<^verbatim>\<open>=A1+B1\<close>.
\<close>

theorem live_cell_record_counterexample:
  "extract_cell_full_details_xl example_formula_cell
     = PDict
         [(''address'', PStr ''$C$1''), (''row'', PNum 1), (''column'', PNum 3),
          (''column_letter'', PStr ''C''), (''value'', PNum 3),
          (''formula'', PStr ''=A1+B1''), (''display_text'', PStr ''3''),
          (''format'', PDict []), (''hyperlink'', PNone), (''note'', PNone),
          (''data_validation'', PNone)]
   \<and> get_nested_parts (extract_cell_full_details_xl example_formula_cell) [''value''] = PNum 3
   \<and> get_nested_parts (extract_cell_full_details_xl example_formula_cell) [''formula'']
        = PStr ''=A1+B1''"
  by code_simp

section \<open>CSV rows\<close>

lemma split_on_two:
  "CHR ''.'' \<notin> set a \<Longrightarrow> CHR ''.'' \<notin> set b \<Longrightarrow> split_on CHR ''.'' (a @ CHR ''.'' # b) = [a, b]"
proof (induction a)
  case Nil
  have "split_on CHR ''.'' b = [b]" using Nil(2)
    by (induction b) auto
  then show ?case by simp
next
  case (Cons x a)
  then show ?case by auto
qed

lemma split_on_one: "c \<notin> set a \<Longrightarrow> split_on c a = [a]"
  by (induction a) auto

lemma get_nested_dotted:
  assumes "CHR ''.'' \<notin> set a" "CHR ''.'' \<notin> set b"
  shows "get_nested c (a @ CHR ''.'' # b)
           = (case dict_get c a of PDict d \<Rightarrow> dict_get d b | _ \<Rightarrow> PNone)"
  by (simp add: get_nested_def split_on_two [OF assms] split: pyval.splits)

lemma length_columns: "length columns = 20"
  by (simp add: columns_def)

lemma write_csv_shape:
  "write_csv py_str rows \<noteq> []"
  "hd (write_csv py_str rows) = map PStr columns"
  "length (write_csv py_str rows) = Suc (length rows)"
  "row \<in> set (write_csv py_str rows) \<Longrightarrow> length row = 20"
  by (auto simp: write_csv_def length_columns)

lemma write_csv_entry:
  "i < length rows \<Longrightarrow> j < 20 \<Longrightarrow>
   write_csv py_str rows ! Suc i ! j = csv_value py_str (rows ! i) (columns ! j)"
  by (simp add: write_csv_def length_columns)

text \<open>
  Claim C7, as the code has it. The column list has 20 names, in the order given. Each of
  the three files starts with the header row of these names and has 20 entries in every
  row; the all-cells file has one row per cell, in order, whose entry for a column is the
  cell's value for that column; the formulas file and the validations file are the
  all-cells files of the cells with a formula and of the cells with a data validation.
  The value for a column without a dot is the cell's entry of that name, for a column
  \<^verbatim>\<open>a.b\<close> it is the entry \<^verbatim>\<open>b\<close> of the dictionary under \<^verbatim>\<open>a\<close> (\<^verbatim>\<open>None\<close> when there is no
  dictionary); a list is written as its elements' texts joined with a comma and a space.
\<close>

theorem csv_rows_follow_columns:
  "columns =
     [''address'', ''row'', ''column'', ''column_letter'', ''value'', ''display_text'',
      ''formula'', ''format.number_format'', ''format.font_name'', ''format.font_size'',
      ''format.font_bold'', ''format.font_italic'', ''hyperlink.address'', ''note'',
      ''data_validation.type_name'', ''data_validation.formula1'',
      ''data_validation.formula2'', ''data_validation.list_items'',
      ''format.merged'', ''format.merge_area'']
   \<and> length columns = 20
   \<and> (out = cells_csv (write_sheet_csvs py_str cells)
        \<or> out = formulas_csv (write_sheet_csvs py_str cells)
        \<or> out = validations_csv (write_sheet_csvs py_str cells)
      \<longrightarrow> out \<noteq> [] \<and> hd out = map PStr columns \<and> (\<forall>row \<in> set out. length row = 20))
   \<and> length (cells_csv (write_sheet_csvs py_str cells)) = Suc (length cells)
   \<and> (i < length cells \<and> j < 20
      \<longrightarrow> cells_csv (write_sheet_csvs py_str cells) ! Suc i ! j
            = csv_value py_str (cells ! i) (columns ! j))
   \<and> formulas_csv (write_sheet_csvs py_str cells)
       = cells_csv (write_sheet_csvs py_str
                      (filter (\<lambda>c. truthy (dict_get c ''formula'')) cells))
   \<and> validations_csv (write_sheet_csvs py_str cells)
       = cells_csv (write_sheet_csvs py_str
                      (filter (\<lambda>c. truthy (dict_get c ''data_validation'')) cells))
   \<and> (CHR ''.'' \<notin> set col
      \<longrightarrow> csv_value py_str c col
            = (case dict_get c col of
                 PList xs \<Rightarrow> PStr (join '', '' (map py_str xs))
               | v \<Rightarrow> v))
   \<and> (CHR ''.'' \<notin> set a \<and> CHR ''.'' \<notin> set b
      \<longrightarrow> csv_value py_str c (a @ ''.'' @ b)
            = (case (case dict_get c a of PDict d \<Rightarrow> dict_get d b | _ \<Rightarrow> PNone) of
                 PList xs \<Rightarrow> PStr (join '', '' (map py_str xs))
               | v \<Rightarrow> v))"
proof -
  have shape: "out \<noteq> [] \<and> hd out = map PStr columns \<and> (\<forall>row \<in> set out. length row = 20)"
    if "out = cells_csv (write_sheet_csvs py_str cells)
        \<or> out = formulas_csv (write_sheet_csvs py_str cells)
        \<or> out = validations_csv (write_sheet_csvs py_str cells)"
    using that write_csv_shape(1,2,4) by (auto simp: write_sheet_csvs_def)
  have len: "length (cells_csv (write_sheet_csvs py_str cells)) = Suc (length cells)"
    by (simp add: write_sheet_csvs_def write_csv_shape(3))
  have entry: "cells_csv (write_sheet_csvs py_str cells) ! Suc i ! j
            = csv_value py_str (cells ! i) (columns ! j)"
    if "i < length cells \<and> j < 20"
    using that by (simp add: write_sheet_csvs_def write_csv_entry)
  have plain: "csv_value py_str c col
            = (case dict_get c col of
                 PList xs \<Rightarrow> PStr (join '', '' (map py_str xs))
               | v \<Rightarrow> v)"
    if "CHR ''.'' \<notin> set col"
    using that by (simp add: csv_value_def has_def split: pyval.splits)
  have dotted: "csv_value py_str c (a @ ''.'' @ b)
            = (case (case dict_get c a of PDict d \<Rightarrow> dict_get d b | _ \<Rightarrow> PNone) of
                 PList xs \<Rightarrow> PStr (join '', '' (map py_str xs))
               | v \<Rightarrow> v)"
    if "CHR ''.'' \<notin> set a \<and> CHR ''.'' \<notin> set b"
  proof -
    have "get_nested c (a @ CHR ''.'' # b)
           = (case dict_get c a of PDict d \<Rightarrow> dict_get d b | _ \<Rightarrow> PNone)"
      using that by (simp add: get_nested_dotted)
    then show ?thesis
      by (simp add: csv_value_def has_def Let_def split: pyval.splits)
  qed
  have cols: "columns =
     [''address'', ''row'', ''column'', ''column_letter'', ''value'', ''display_text'',
      ''formula'', ''format.number_format'', ''format.font_name'', ''format.font_size'',
      ''format.font_bold'', ''format.font_italic'', ''hyperlink.address'', ''note'',
      ''data_validation.type_name'', ''data_validation.formula1'',
      ''data_validation.formula2'', ''data_validation.list_items'',
      ''format.merged'', ''format.merge_area'']"
    by (simp add: columns_def)
  have f: "formulas_csv (write_sheet_csvs py_str cells)
       = cells_csv (write_sheet_csvs py_str
                      (filter (\<lambda>c. truthy (dict_get c ''formula'')) cells))"
    "validations_csv (write_sheet_csvs py_str cells)
       = cells_csv (write_sheet_csvs py_str
                      (filter (\<lambda>c. truthy (dict_get c ''data_validation'')) cells))"
    by (simp_all add: write_sheet_csvs_def)
  from cols length_columns shape len entry f plain dotted show ?thesis
    by blast
qed

text \<open>
  The header row has 20 entries, not 19.
\<close>

theorem csv_header_length_counterexample:
  "length (hd (cells_csv (write_sheet_csvs example_str [example_csv_cell]))) = 20
   \<and> length columns \<noteq> 19"
  by code_simp


theorem csv_rows_follow_columns_witness:
  "(0::nat) < length [example_csv_cell] \<and> (17::nat) < 20
   \<and> columns ! 17 = ''data_validation.list_items''
   \<and> cells_csv (write_sheet_csvs example_str [example_csv_cell]) ! Suc 0 ! 17
        = PStr ''Red, Green''
   \<and> validations_csv (write_sheet_csvs example_str [example_csv_cell])
        = cells_csv (write_sheet_csvs example_str [example_csv_cell])
   \<and> formulas_csv (write_sheet_csvs example_str [example_csv_cell]) = [map PStr columns]"
proof -
  have h: "(0::nat) < length [example_csv_cell] \<and> (17::nat) < 20" by simp
  have c: "columns ! 17 = ''data_validation.list_items''" by code_simp
  have v: "csv_value example_str example_csv_cell ''data_validation.list_items''
             = PStr ''Red, Green''"
    by code_simp
  have f1: "filter (\<lambda>c. truthy (dict_get c ''data_validation'')) [example_csv_cell]
              = [example_csv_cell]"
    by code_simp
  have f2: "filter (\<lambda>c. truthy (dict_get c ''formula'')) [example_csv_cell] = []"
    by code_simp
  have e: "cells_csv (write_sheet_csvs example_str []) = [map PStr columns]"
    by (simp add: write_sheet_csvs_def write_csv_def)
  note th = csv_rows_follow_columns
    [where i = 0 and j = 17 and cells = "[example_csv_cell]" and py_str = example_str]
  from th h have "cells_csv (write_sheet_csvs example_str [example_csv_cell]) ! Suc 0 ! 17
          = csv_value example_str ([example_csv_cell] ! 0) (columns ! 17)"
    by blast
  then have a: "cells_csv (write_sheet_csvs example_str [example_csv_cell]) ! Suc 0 ! 17
          = PStr ''Red, Green''"
    by (simp add: c v)
  from th have b: "validations_csv (write_sheet_csvs example_str [example_csv_cell])
        = cells_csv (write_sheet_csvs example_str [example_csv_cell])"
    unfolding f1 by blast
  from th have d: "formulas_csv (write_sheet_csvs example_str [example_csv_cell])
        = [map PStr columns]"
    unfolding f2 e by blast
  from h c a b d show ?thesis by blast
qed

section \<open>The workbook walk\<close>

lemma length_all_sheets_loop: "length (all_sheets_loop ex wss) = length wss"
  by (induction wss) auto

lemma workbook_record_fields:
  "get_nested (workbook_record fp ts n all_sheets ns) ''workbook.sheets'' = PList all_sheets"
  "get_nested (workbook_record fp ts n all_sheets ns) ''workbook.sheet_count'' = PNum (int n)"
  "detect_structure (workbook_record fp ts n all_sheets ns) = ''workbook''"
  by (simp_all add: get_nested_def workbook_record_def dict_get_def detect_structure_def)

text \<open>
  The loop of the live-application extractor either is left by an exception or appends,
  for every sheet, the record \<^verbatim>\<open>extract_sheet_full_details\<close> returns: the record with
  the error text is never appended, because the sheet extraction catches every exception
  of its own and the only read that can raise in the \<^verbatim>\<open>try\<close> of the loop, the sheet's
  name, is repeated by the handler.
\<close>

lemma all_sheets_loop_xl_length:
  "all_sheets_loop_xl wb wss = Some all_sheets \<Longrightarrow> length all_sheets = length wss"
proof (induction wss arbitrary: all_sheets)
  case Nil
  then show ?case by simp
next
  case (Cons ws wss)
  then show ?case
    by (cases "x_name ws") (auto split: option.splits)
qed

lemma all_sheets_loop_xl_names:
  "all_sheets_loop_xl wb wss \<noteq> None \<longleftrightarrow> (\<forall>ws \<in> set wss. \<exists>n. x_name ws = Inr n)"
proof (induction wss)
  case Nil
  show ?case by simp
next
  case (Cons ws wss)
  then show ?case
    by (cases "x_name ws") (auto split: option.splits)
qed

lemma all_sheets_loop_xl_entries:
  "all_sheets_loop_xl wb wss = Some all_sheets \<Longrightarrow> i < length wss \<Longrightarrow>
   \<exists>n. x_name (wss ! i) = Inr n
       \<and> all_sheets ! i = extract_sheet_full_details_xl wb (wss ! i) (Some n)"
proof (induction wss arbitrary: all_sheets i)
  case Nil
  then show ?case by simp
next
  case (Cons ws wss)
  from Cons.prems(1) obtain n rest where n: "x_name ws = Inr n"
    and rest: "all_sheets_loop_xl wb wss = Some rest"
    and all: "all_sheets = extract_sheet_full_details_xl wb ws (Some n) # rest"
    by (cases "x_name ws") (auto split: option.splits)
  show ?case
  proof (cases i)
    case 0
    with n all show ?thesis by simp
  next
    case (Suc j)
    with Cons.prems(2) have "j < length wss" by simp
    from Cons.IH [OF rest this] Suc all show ?thesis by simp
  qed
qed

text \<open>
  Claim C9 at a workbook of the live-application extractor with the sheets Data, Broken
  and Last, where the sheet Broken cannot be read. When its name can still be read, its
  entry in the workbook record has neither the name nor an error text: every entry of
  \<^verbatim>\<open>sheet\<close> is \<^verbatim>\<open>None\<close>, next to empty lists of cells and tables. When reading its name
  raises too, the exception leaves the loop and the whole walk returns the empty
  dictionary, without the sibling sheets.
\<close>

theorem live_walk_unreadable_sheet:
  "x_name example_unreadable_sheet = Inr ''Broken''
   \<and> x_used_range example_unreadable_sheet = None
   \<and> extract_sheet_full_details_xl (example_live_workbook example_unreadable_sheet)
        example_unreadable_sheet (Some ''Broken'')
        = PDict [(''sheet'', PDict [(''name'', PNone), (''used_range'', PNone),
                                    (''rows'', PNone), (''columns'', PNone),
                                    (''visible'', PNone), (''protect_contents'', PNone),
                                    (''protect_drawing'', PNone),
                                    (''protect_scenarios'', PNone)]),
                 (''cells'', PList []),
                 (''tables'', PList [])]
   \<and> get_nested (extract_workbook_full_details_xl (example_live_workbook example_unreadable_sheet)
          ''book.xlsx'' ''2024-01-01T00:00:00'' []) ''workbook.sheets''
        = PList
            [extract_sheet_full_details_xl (example_live_workbook example_unreadable_sheet)
               (example_live_sheet ''Data'') (Some ''Data''),
             extract_sheet_full_details_xl (example_live_workbook example_unreadable_sheet)
               example_unreadable_sheet (Some ''Broken''),
             extract_sheet_full_details_xl (example_live_workbook example_unreadable_sheet)
               (example_live_sheet ''Last'') (Some ''Last'')]
   \<and> get_nested_parts
         (extract_sheet_full_details_xl (example_live_workbook example_unreadable_sheet)
            example_unreadable_sheet (Some ''Broken'')) [''sheet'', ''error''] = PNone
   \<and> x_name example_lost_sheet = Inl ''sheet is not accessible''
   \<and> all_sheets_loop_xl (example_live_workbook example_lost_sheet)
        [example_live_sheet ''Data'', example_lost_sheet, example_live_sheet ''Last''] = None
   \<and> extract_workbook_full_details_xl (example_live_workbook example_lost_sheet)
        ''book.xlsx'' ''2024-01-01T00:00:00'' [] = []"
  by code_simp

text \<open>
  Claim C10. Whenever the record returned by the workbook walk, of either extractor, has
  the shape of a workbook, its \<^verbatim>\<open>sheet_count\<close> is the length of its \<^verbatim>\<open>sheets\<close> list, which
  has one entry per sheet of the workbook. The loop of the file-parsing extractor always
  gives such a record, whatever the sheet extraction does; the live-application extractor
  gives it exactly when the sheets and the name of every sheet can be read, and the empty
  dictionary otherwise.
\<close>

theorem sheet_count_matches_sheets:
  "(\<exists>entries.
      get_nested (extract_workbook_full_details ex fp ts wss ns) ''workbook.sheets''
        = PList entries
      \<and> get_nested (extract_workbook_full_details ex fp ts wss ns) ''workbook.sheet_count''
          = PNum (int (length entries))
      \<and> length entries = length wss)
   \<and> detect_structure (extract_workbook_full_details ex fp ts wss ns) = ''workbook''
   \<and> (detect_structure (extract_workbook_full_details_xl wb fp ts ns) = ''workbook''
      \<longrightarrow> (\<exists>entries xss.
            w_sheets_read wb = Inr xss
            \<and> get_nested (extract_workbook_full_details_xl wb fp ts ns) ''workbook.sheets''
                = PList entries
            \<and> get_nested (extract_workbook_full_details_xl wb fp ts ns) ''workbook.sheet_count''
                = PNum (int (length entries))
            \<and> length entries = length xss))
   \<and> (detect_structure (extract_workbook_full_details_xl wb fp ts ns) = ''workbook''
      \<longleftrightarrow> (\<exists>xss. w_sheets_read wb = Inr xss \<and> (\<forall>ws \<in> set xss. \<exists>n. x_name ws = Inr n)))
   \<and> (detect_structure (extract_workbook_full_details_xl wb fp ts ns) \<noteq> ''workbook''
      \<longrightarrow> extract_workbook_full_details_xl wb fp ts ns = [])"
proof -
  have opx: "\<exists>entries.
      get_nested (extract_workbook_full_details ex fp ts wss ns) ''workbook.sheets''
        = PList entries
      \<and> get_nested (extract_workbook_full_details ex fp ts wss ns) ''workbook.sheet_count''
          = PNum (int (length entries))
      \<and> length entries = length wss"
    by (simp add: extract_workbook_full_details_def workbook_record_fields
        length_all_sheets_loop)
  have opx_shape: "detect_structure (extract_workbook_full_details ex fp ts wss ns)
                     = ''workbook''"
    by (simp add: extract_workbook_full_details_def workbook_record_fields)
  have empty: "detect_structure [] \<noteq> ''workbook''"
    by (simp add: detect_structure_def)
  show ?thesis
  proof (cases "w_sheets_read wb")
    case (Inl e)
    then have r: "extract_workbook_full_details_xl wb fp ts ns = []"
      by (simp add: extract_workbook_full_details_xl_def)
    from opx opx_shape empty Inl show ?thesis
      unfolding r by auto
  next
    case (Inr xss)
    show ?thesis
    proof (cases "all_sheets_loop_xl wb xss")
      case None
      with Inr have r: "extract_workbook_full_details_xl wb fp ts ns = []"
        by (simp add: extract_workbook_full_details_xl_def)
      from None have "\<not> (\<forall>ws \<in> set xss. \<exists>n. x_name ws = Inr n)"
        using all_sheets_loop_xl_names [of wb xss] by simp
      with opx opx_shape empty Inr show ?thesis
        unfolding r by auto
    next
      case (Some all_sheets)
      with Inr have r: "extract_workbook_full_details_xl wb fp ts ns
                          = workbook_record fp ts (length xss) all_sheets ns"
        by (simp add: extract_workbook_full_details_xl_def)
      have len: "length all_sheets = length xss"
        using Some by (rule all_sheets_loop_xl_length)
      have nm: "\<forall>ws \<in> set xss. \<exists>n. x_name ws = Inr n"
        using Some all_sheets_loop_xl_names [of wb xss] by simp
      from opx opx_shape Inr len nm show ?thesis
        unfolding r by (auto simp: workbook_record_fields)
    qed
  qed
qed

theorem sheet_count_matches_sheets_witness:
  "detect_structure (extract_workbook_full_details_xl
       (example_live_workbook example_unreadable_sheet) ''book.xlsx''
       ''2024-01-01T00:00:00'' []) = ''workbook''
   \<and> get_nested (extract_workbook_full_details_xl
         (example_live_workbook example_unreadable_sheet) ''book.xlsx''
         ''2024-01-01T00:00:00'' []) ''workbook.sheet_count'' = PNum 3
   \<and> (\<exists>entries.
        get_nested (extract_workbook_full_details_xl
          (example_live_workbook example_unreadable_sheet) ''book.xlsx''
          ''2024-01-01T00:00:00'' []) ''workbook.sheets'' = PList entries
        \<and> length entries = 3)
   \<and> get_nested (extract_workbook_full_details example_sheet_outcome ''book.xlsx''
       ''2024-01-01T00:00:00'' (worksheets example_workbook) []) ''workbook.sheet_count''
       = PNum 1
   \<and> (\<exists>entries.
        get_nested (extract_workbook_full_details example_sheet_outcome ''book.xlsx''
          ''2024-01-01T00:00:00'' (worksheets example_workbook) []) ''workbook.sheets''
          = PList entries
        \<and> length entries = 1)
   \<and> extract_workbook_full_details_xl (example_live_workbook example_lost_sheet) ''book.xlsx''
       ''2024-01-01T00:00:00'' [] = []"
proof -
  have l: "length (worksheets example_workbook) = 1"
    by (simp add: example_workbook_def)
  have rd: "w_sheets_read (example_live_workbook example_unreadable_sheet)
              = Inr [example_live_sheet ''Data'', example_unreadable_sheet,
                     example_live_sheet ''Last'']"
    by (simp add: example_live_workbook_def)
  have shape: "detect_structure (extract_workbook_full_details_xl
       (example_live_workbook example_unreadable_sheet) ''book.xlsx''
       ''2024-01-01T00:00:00'' []) = ''workbook''"
    by code_simp
  have lost: "detect_structure (extract_workbook_full_details_xl
       (example_live_workbook example_lost_sheet) ''book.xlsx''
       ''2024-01-01T00:00:00'' []) \<noteq> ''workbook''"
    by code_simp
  note th = sheet_count_matches_sheets
    [where ex = example_sheet_outcome and fp = "''book.xlsx''"
       and ts = "''2024-01-01T00:00:00''" and wss = "worksheets example_workbook"
       and ns = "[]" and wb = "example_live_workbook example_unreadable_sheet"]
  from th shape obtain entries xss where x:
    "w_sheets_read (example_live_workbook example_unreadable_sheet) = Inr xss"
    "get_nested (extract_workbook_full_details_xl
       (example_live_workbook example_unreadable_sheet) ''book.xlsx''
       ''2024-01-01T00:00:00'' []) ''workbook.sheets'' = PList entries"
    "get_nested (extract_workbook_full_details_xl
       (example_live_workbook example_unreadable_sheet) ''book.xlsx''
       ''2024-01-01T00:00:00'' []) ''workbook.sheet_count'' = PNum (int (length entries))"
    "length entries = length xss"
    by blast
  from x(1,4) rd have xl3: "length entries = 3" by auto
  from th obtain entries' where y:
    "get_nested (extract_workbook_full_details example_sheet_outcome ''book.xlsx''
       ''2024-01-01T00:00:00'' (worksheets example_workbook) []) ''workbook.sheets''
       = PList entries'"
    "get_nested (extract_workbook_full_details example_sheet_outcome ''book.xlsx''
       ''2024-01-01T00:00:00'' (worksheets example_workbook) []) ''workbook.sheet_count''
       = PNum (int (length entries'))"
    "length entries' = length (worksheets example_workbook)"
    by blast
  from sheet_count_matches_sheets
    [where fp = "''book.xlsx''" and ts = "''2024-01-01T00:00:00''" and ns = "[]"
       and wb = "example_live_workbook example_lost_sheet"] lost
  have z: "extract_workbook_full_details_xl (example_live_workbook example_lost_sheet)
       ''book.xlsx'' ''2024-01-01T00:00:00'' [] = []"
    by blast
  from shape x(2,3) xl3 y l z show ?thesis by auto
qed

end
